theory Spec2Isabelle
  imports Complex_Main
begin

section \<open>Data model\<close>

text \<open>
  The documents of the collections the ledger engine works on, as the service code reads
  and writes them. Identifiers are strings (ObjectId values); amounts are JavaScript
  numbers, modelled as rationals; instants are milliseconds since the epoch. A string
  property that is \<^verbatim>\<open>null\<close>, \<^verbatim>\<open>undefined\<close> or empty is the empty string: all
  three are falsy, and the code only ever tests them with \<^verbatim>\<open>||\<close> and \<^verbatim>\<open>!\<close>.

  A record has the properties that the Mongoose schema of its collection declares
  (\<^verbatim>\<open>src/models\<close>), as far as the operations below read or write them. The schemas are
  strict, so a property that the schema does not declare is never stored and is
  \<^verbatim>\<open>undefined\<close> on every document that was loaded: this is the case for the
  \<^verbatim>\<open>status\<close>, \<^verbatim>\<open>amountHeld\<close> and \<^verbatim>\<open>releasedAt\<close> of an Escrow, which
  \<^verbatim>\<open>escrowSettlementService.js\<close> and \<^verbatim>\<open>reconciliationService.js\<close> use where the schema
  has \<^verbatim>\<open>state\<close> and \<^verbatim>\<open>amount\<close>; for the \<^verbatim>\<open>completedAt\<close> of a Booking; and for the
  \<^verbatim>\<open>raisedBy\<close> and \<^verbatim>\<open>winnerId\<close> of a Dispute, where the schema has \<^verbatim>\<open>initiatorId\<close> and
  \<^verbatim>\<open>respondentId\<close>. Reading such a property is a function that returns nothing; writing
  it changes no stored document. The validators of the schemas (\<^verbatim>\<open>required\<close>,
  \<^verbatim>\<open>enum\<close>) are predicates on the records, applied where a service function saves a
  document that can fail them. Idempotency keys, raw gateway payloads and metadata bags
  are written but never read by the operations below and are left out.
\<close>

type_synonym oid = string

record booking =
  b_id :: oid
  b_proId :: oid
  b_status :: string
  b_totalAmount :: rat
  b_escrowAmount :: rat
  b_paymentStatus :: string
  b_paymentGateway :: string
  b_escrowId :: string
  b_customerReviewed :: bool
  b_proReviewed :: bool
  b_paymentReleased :: bool
  b_settledAt :: "int option"
  b_updatedAt :: "int option"

record escrow =
  e_id :: oid
  e_bookingId :: oid
  e_amount :: rat
  e_state :: string
  e_paymentGateway :: string
  e_gatewayReference :: string
  e_reconciled :: bool
  e_initiatedBy :: string

record txn =
  t_id :: oid
  t_bookingId :: string
  t_amount :: "rat option"
  t_type :: string
  t_status :: string
  t_paymentGateway :: string
  t_reference :: string
  t_note :: string

record dispute =
  d_id :: oid
  d_bookingId :: string
  d_initiatorId :: string
  d_respondentId :: string
  d_reason :: string
  d_description :: string
  d_status :: string
  d_resolution :: "string option"
  d_resolvedBy :: string
  d_resolvedAt :: "int option"

record store =
  bookings :: "booking list"
  escrows :: "escrow list"
  transactions :: "txn list"
  users :: "oid list"
  disputes :: "dispute list"

datatype error =
    BookingNotFound
  | EscrowNotFound
  | NotReleasable string
  | NotRefundable string
  | ProNotFound
  | DisputeNotFound
  | UnsupportedGateway
  | GatewayError
  | DuplicateReference
  | ValidationError
  | CastError
  | BookingIsNull
  | TrustScoreFailed

subsection \<open>Properties the schemas do not declare\<close>

text \<open>
  \<^verbatim>\<open>escrow.status\<close>, \<^verbatim>\<open>escrow.amountHeld\<close> and \<^verbatim>\<open>booking.completedAt\<close>, read from a
  document that \<^verbatim>\<open>findOne\<close> or \<^verbatim>\<open>findById\<close> returned: \<^verbatim>\<open>undefined\<close>.
\<close>

definition escrow_status :: "escrow \<Rightarrow> string option" where
  "escrow_status e = None"

definition escrow_amountHeld :: "escrow \<Rightarrow> rat option" where
  "escrow_amountHeld e = None"

definition booking_completedAt :: "booking \<Rightarrow> int option" where
  "booking_completedAt b = None"

subsection \<open>Schema validators\<close>

text \<open>
  \<^verbatim>\<open>Transaction\<close>: \<^verbatim>\<open>bookingId\<close>, \<^verbatim>\<open>amount\<close>, \<^verbatim>\<open>type\<close> and \<^verbatim>\<open>reference\<close> are
  required, \<^verbatim>\<open>type\<close> and \<^verbatim>\<open>status\<close> are enumerated. \<^verbatim>\<open>Dispute\<close>: \<^verbatim>\<open>bookingId\<close>,
  \<^verbatim>\<open>initiatorId\<close>, \<^verbatim>\<open>respondentId\<close> and \<^verbatim>\<open>reason\<close> are required, \<^verbatim>\<open>status\<close> is
  enumerated, and so is \<^verbatim>\<open>resolution\<close> when it is set. \<^verbatim>\<open>Booking\<close>: \<^verbatim>\<open>status\<close> is
  enumerated.
\<close>

definition transactionTypes :: "string list" where
  "transactionTypes = [''escrow'', ''release'', ''refund'', ''payout'', ''fee'']"

definition transactionStatuses :: "string list" where
  "transactionStatuses = [''pending'', ''success'', ''failed'']"

definition validTransaction :: "txn \<Rightarrow> bool" where
  "validTransaction t \<longleftrightarrow>
     t_bookingId t \<noteq> [] \<and> t_amount t \<noteq> None \<and> t_type t \<in> set transactionTypes
     \<and> t_status t \<in> set transactionStatuses \<and> t_reference t \<noteq> []"

definition disputeStatuses :: "string list" where
  "disputeStatuses = [''open'', ''under_review'', ''resolved'', ''cancelled'']"

definition disputeResolutions :: "string list" where
  "disputeResolutions = [''refund_customer'', ''release_pro'', ''split'', ''no_action'', ''other'']"

definition validDispute :: "dispute \<Rightarrow> bool" where
  "validDispute d \<longleftrightarrow>
     d_bookingId d \<noteq> [] \<and> d_initiatorId d \<noteq> [] \<and> d_respondentId d \<noteq> []
     \<and> d_reason d \<noteq> [] \<and> d_status d \<in> set disputeStatuses
     \<and> (case d_resolution d of None \<Rightarrow> True | Some r \<Rightarrow> r \<in> set disputeResolutions)"

definition bookingStatuses :: "string list" where
  "bookingStatuses = [''pending'', ''confirmed'', ''in_progress'', ''completed'', ''cancelled'']"

subsection \<open>Queries and writes\<close>

definition findBookingById :: "oid \<Rightarrow> store \<Rightarrow> booking option" where
  "findBookingById i db = find (\<lambda>b. b_id b = i) (bookings db)"

definition findEscrowByBooking :: "oid \<Rightarrow> store \<Rightarrow> escrow option" where
  "findEscrowByBooking i db = find (\<lambda>e. e_bookingId e = i) (escrows db)"

definition findEscrowByGatewayReference :: "string \<Rightarrow> store \<Rightarrow> escrow option" where
  "findEscrowByGatewayReference r db = find (\<lambda>e. e_gatewayReference e = r) (escrows db)"

definition findTransactionByReference :: "string \<Rightarrow> store \<Rightarrow> txn option" where
  "findTransactionByReference r db = find (\<lambda>t. t_reference t = r) (transactions db)"

definition saveEscrow :: "escrow \<Rightarrow> store \<Rightarrow> store" where
  "saveEscrow e db =
     db\<lparr>escrows := map (\<lambda>x. if e_id x = e_id e then e else x) (escrows db)\<rparr>"

definition insertEscrow :: "escrow \<Rightarrow> store \<Rightarrow> store" where
  "insertEscrow e db = db\<lparr>escrows := escrows db @ [e]\<rparr>"

definition saveBooking :: "booking \<Rightarrow> store \<Rightarrow> store" where
  "saveBooking b db =
     db\<lparr>bookings := map (\<lambda>x. if b_id x = b_id b then b else x) (bookings db)\<rparr>"

definition insertTransaction :: "txn \<Rightarrow> store \<Rightarrow> store" where
  "insertTransaction t db = db\<lparr>transactions := transactions db @ [t]\<rparr>"

section \<open>The ledger: recordTransaction\<close>

text \<open>
  \<^verbatim>\<open>recordTransaction\<close> of \<^verbatim>\<open>escrowService.js\<close>: when the reference is truthy and a
  Transaction with that reference is stored, that document is returned and nothing is
  written; otherwise a new Transaction is built from the arguments and saved. The
  identifier of the new document is an input. The save validates the new document;
  \<open>rejectsNewTransaction\<close> tells whether a call would save a document that the schema
  rejects, in which case \<^verbatim>\<open>recordTransaction\<close> throws and writes nothing. Release, refund
  and initialization pass a booking that was found, an amount, a type of the enumeration
  and a generated reference; the webhook handler can pass no booking, and tests this
  before it calls.
\<close>

definition recordTransaction :: "txn \<Rightarrow> store \<Rightarrow> txn \<times> store" where
  "recordTransaction args db =
     (case (if t_reference args \<noteq> [] then findTransactionByReference (t_reference args) db
            else None) of
        Some existing \<Rightarrow> (existing, db)
      | None \<Rightarrow> (args, insertTransaction args db))"

definition rejectsNewTransaction :: "txn \<Rightarrow> store \<Rightarrow> bool" where
  "rejectsNewTransaction args db \<longleftrightarrow>
     (if t_reference args \<noteq> [] then findTransactionByReference (t_reference args) db
      else None) = None
     \<and> \<not> validTransaction args"

section \<open>Release and refund\<close>

record payout_result =
  p_success :: bool
  p_reference :: string

definition payout_ok :: "payout_result option \<Rightarrow> bool" where
  "payout_ok r = (case r of None \<Rightarrow> False | Some p \<Rightarrow> p_success p)"

definition payout_ref :: "payout_result option \<Rightarrow> string" where
  "payout_ref r = (case r of None \<Rightarrow> [] | Some p \<Rightarrow> p_reference p)"

definition orNum :: "rat \<Rightarrow> rat \<Rightarrow> rat" where
  "orNum a b = (if a \<noteq> 0 then a else b)"

definition orStr :: "string \<Rightarrow> string \<Rightarrow> string" where
  "orStr a b = (if a \<noteq> [] then a else b)"

record funds_reply =
  r_success :: bool
  r_reference :: string

text \<open>
  \<^verbatim>\<open>escrowService.releaseFunds\<close>. The locally generated reference
  (\<^verbatim>\<open>REL-<clock>-<random>\<close>), the identifier of the new Transaction and the result of the
  gateway adapter's \<^verbatim>\<open>payout\<close> are inputs. All writes happen in one database
  transaction: an exception aborts it, so an error leaves the store as it was.
\<close>

definition releaseFunds ::
  "oid \<Rightarrow> string \<Rightarrow> string \<Rightarrow> string \<Rightarrow> oid \<Rightarrow> payout_result option \<Rightarrow> store
     \<Rightarrow> error + (funds_reply \<times> store)" where
  "releaseFunds bookingId initiatedBy note localRef newTxId payoutResult db =
     (case findBookingById bookingId db of
        None \<Rightarrow> Inl BookingNotFound
      | Some booking \<Rightarrow>
     (case findEscrowByBooking (b_id booking) db of
        None \<Rightarrow> Inl EscrowNotFound
      | Some escrow \<Rightarrow>
          if e_state escrow \<notin> set [''held'', ''pending'', ''disputed'']
          then Inl (NotReleasable (e_state escrow))
          else
            let amount = orNum (e_amount escrow) (orNum (b_escrowAmount booking) (b_totalAmount booking));
                gateway = orStr (e_paymentGateway escrow) (orStr (b_paymentGateway booking) ''paystack'');
                reference = orStr (payout_ref payoutResult) localRef;
                (tx, db1) = recordTransaction
                   \<lparr>t_id = newTxId, t_bookingId = b_id booking, t_amount = Some amount,
                    t_type = ''release'',
                    t_status = (if payout_ok payoutResult then ''success'' else ''failed''),
                    t_paymentGateway = gateway, t_reference = reference,
                    t_note = orStr note ''release''\<rparr> db;
                escrow' = escrow\<lparr>e_state := (if payout_ok payoutResult then ''released'' else ''disputed''),
                                 e_initiatedBy := initiatedBy\<rparr>;
                db2 = saveEscrow escrow' db1;
                booking' = booking
                   \<lparr>b_paymentStatus := (if payout_ok payoutResult then ''released'' else b_paymentStatus booking),
                    b_status := (if payout_ok payoutResult then ''completed'' else b_status booking)\<rparr>;
                db3 = saveBooking booking' db2
            in Inr (\<lparr>r_success = payout_ok payoutResult, r_reference = reference\<rparr>, db3)))"


text \<open>
  \<^verbatim>\<open>escrowService.refundFunds\<close>: the same shape, with the adapter's \<^verbatim>\<open>refund\<close>.
\<close>

definition refundFunds ::
  "oid \<Rightarrow> string \<Rightarrow> string \<Rightarrow> string \<Rightarrow> oid \<Rightarrow> payout_result option \<Rightarrow> store
     \<Rightarrow> error + (funds_reply \<times> store)" where
  "refundFunds bookingId initiatedBy reason localRef newTxId refundResult db =
     (case findBookingById bookingId db of
        None \<Rightarrow> Inl BookingNotFound
      | Some booking \<Rightarrow>
     (case findEscrowByBooking (b_id booking) db of
        None \<Rightarrow> Inl EscrowNotFound
      | Some escrow \<Rightarrow>
          if e_state escrow \<notin> set [''held'', ''pending'', ''disputed'']
          then Inl (NotRefundable (e_state escrow))
          else
            let amount = orNum (e_amount escrow) (orNum (b_escrowAmount booking) (b_totalAmount booking));
                gateway = orStr (e_paymentGateway escrow) (orStr (b_paymentGateway booking) ''paystack'');
                reference = orStr (payout_ref refundResult) localRef;
                (tx, db1) = recordTransaction
                   \<lparr>t_id = newTxId, t_bookingId = b_id booking, t_amount = Some amount,
                    t_type = ''refund'',
                    t_status = (if payout_ok refundResult then ''success'' else ''failed''),
                    t_paymentGateway = gateway, t_reference = reference,
                    t_note = orStr reason ''refund''\<rparr> db;
                escrow' = escrow\<lparr>e_state := (if payout_ok refundResult then ''refunded'' else ''disputed''),
                                 e_initiatedBy := initiatedBy\<rparr>;
                db2 = saveEscrow escrow' db1;
                booking' = booking
                   \<lparr>b_paymentStatus := (if payout_ok refundResult then ''refunded'' else b_paymentStatus booking),
                    b_status := (if payout_ok refundResult then ''cancelled'' else b_status booking)\<rparr>;
                db3 = saveBooking booking' db2
            in Inr (\<lparr>r_success = payout_ok refundResult, r_reference = reference\<rparr>, db3)))"

section \<open>Initialization and webhook ingestion\<close>

text \<open>
  \<^verbatim>\<open>escrowService.initializeEscrow\<close>. The gateway's answer to \<^verbatim>\<open>initialize\<close> is an
  input: \<open>None\<close> when the call throws, otherwise the reference it returned. An escrow
  that is \<^verbatim>\<open>held\<close> or \<^verbatim>\<open>released\<close> is left alone and reported; any other escrow is
  reset to \<^verbatim>\<open>pending\<close>.
\<close>

datatype init_reply = AlreadyInitialized oid | Initialized string oid

text \<open>Lines 272 to 314: the gateway call and the writes after the escrow has been saved.\<close>

definition initializeWithGateway ::
  "oid \<Rightarrow> booking \<Rightarrow> rat \<Rightarrow> string \<Rightarrow> string option \<Rightarrow> oid \<Rightarrow> escrow \<Rightarrow> store
     \<Rightarrow> error + (init_reply \<times> store)" where
  "initializeWithGateway bookingId booking amount gateway initResult newTxId escrow db1 =
     (if gateway \<noteq> ''paystack'' \<and> gateway \<noteq> ''flutterwave''
      then Inl UnsupportedGateway
      else (case initResult of
         None \<Rightarrow> Inl GatewayError
       | Some reference \<Rightarrow>
           let (tx, db2) = recordTransaction
                 \<lparr>t_id = newTxId, t_bookingId = bookingId, t_amount = Some amount,
                  t_type = ''escrow'', t_status = ''pending'',
                  t_paymentGateway = gateway, t_reference = reference,
                  t_note = ''initialization''\<rparr> db1;
               booking' = booking\<lparr>b_paymentStatus := ''pending'',
                                  b_paymentGateway := gateway\<rparr>;
               db3 = saveBooking booking' db2
           in Inr (Initialized reference (e_id escrow), db3)))"

definition initializeEscrow ::
  "oid \<Rightarrow> rat \<Rightarrow> string \<Rightarrow> string option \<Rightarrow> oid \<Rightarrow> oid \<Rightarrow> store
     \<Rightarrow> error + (init_reply \<times> store)" where
  "initializeEscrow bookingId amount gateway initResult newEscrowId newTxId db =
     (case findBookingById bookingId db of
        None \<Rightarrow> Inl BookingNotFound
      | Some booking \<Rightarrow>
     (case findEscrowByBooking bookingId db of
        Some e \<Rightarrow>
          if e_state e \<in> set [''held'', ''released'']
          then Inr (AlreadyInitialized (e_id e), db)
          else
            let escrow = e\<lparr>e_amount := amount, e_paymentGateway := gateway,
                           e_state := ''pending''\<rparr>
            in initializeWithGateway bookingId booking amount gateway initResult newTxId escrow
                 (saveEscrow escrow db)
      | None \<Rightarrow>
          let escrow = \<lparr>e_id = newEscrowId, e_bookingId = bookingId, e_amount = amount,
                        e_state = ''pending'', e_paymentGateway = gateway,
                        e_gatewayReference = [], e_reconciled = False, e_initiatedBy = []\<rparr>
          in initializeWithGateway bookingId booking amount gateway initResult newTxId escrow
               (insertEscrow escrow db)))"

text \<open>
  The parsed webhook body, with the properties the handler reads. A property that is
  missing is \<open>None\<close> (a missing amount is zero: it is only tested for truth and
  divided). \<open>rb_own\<close> holds the body's own properties of these names, which the
  handler reads for Flutterwave when the body has no \<^verbatim>\<open>data\<close> object.
\<close>

record raw_data =
  rd_reference :: "string option"
  rd_tx_ref :: "string option"
  rd_id :: "string option"
  rd_transaction_id :: "string option"
  rd_status :: "string option"
  rd_amount :: rat
  rd_metadata_bookingId :: "string option"
  rd_meta_bookingId :: "string option"
  rd_meta_booking_id :: "string option"

record raw_body =
  rb_event :: "string option"
  rb_data :: "raw_data option"
  rb_own :: raw_data

text \<open>
  The webhook after lines 341 to 355: \<open>w_eventType\<close> is \<^verbatim>\<open>String(eventType)\<close>,
  \<open>w_dataStatus\<close> is \<^verbatim>\<open>String(data?.status)\<close>, \<open>w_reference\<close> and \<open>w_bookingId\<close>
  are the results of the two \<^verbatim>\<open>||\<close> chains (empty when every alternative is falsy),
  \<open>w_amount\<close> is \<^verbatim>\<open>data?.amount\<close>.
\<close>

record webhook =
  w_eventType :: string
  w_dataStatus :: string
  w_reference :: string
  w_bookingId :: string
  w_amount :: rat

definition orOpt :: "string option \<Rightarrow> string option \<Rightarrow> string option" where
  "orOpt a b = (case a of None \<Rightarrow> b | Some x \<Rightarrow> if x \<noteq> [] then a else b)"

definition jsString :: "string option \<Rightarrow> string" where
  "jsString a = (case a of None \<Rightarrow> ''undefined'' | Some x \<Rightarrow> x)"

definition orEmpty :: "string option \<Rightarrow> string" where
  "orEmpty a = (case a of None \<Rightarrow> [] | Some x \<Rightarrow> x)"

definition no_data :: raw_data where
  "no_data =
     \<lparr>rd_reference = None, rd_tx_ref = None, rd_id = None, rd_transaction_id = None,
      rd_status = None, rd_amount = 0, rd_metadata_bookingId = None,
      rd_meta_bookingId = None, rd_meta_booking_id = None\<rparr>"

definition normaliseWebhook :: "string \<Rightarrow> raw_body \<Rightarrow> webhook" where
  "normaliseWebhook gateway body =
     (let eventType =
            (if gateway = ''paystack'' then rb_event body
             else orOpt (rb_event body)
                    (orOpt (case rb_data body of None \<Rightarrow> None | Some d \<Rightarrow> rd_status d)
                       (rd_status (rb_own body))));
          data =
            (if gateway = ''paystack''
             then (case rb_data body of None \<Rightarrow> no_data | Some d \<Rightarrow> d)
             else (case rb_data body of None \<Rightarrow> rb_own body | Some d \<Rightarrow> d))
      in \<lparr>w_eventType = jsString eventType,
          w_dataStatus = jsString (rd_status data),
          w_reference =
            orEmpty (orOpt (rd_reference data) (orOpt (rd_tx_ref data) (orOpt (rd_id data)
               (orOpt (rd_transaction_id data) (rd_tx_ref data))))),
          w_bookingId =
            orEmpty (orOpt (rd_metadata_bookingId data)
               (orOpt (rd_meta_bookingId data) (rd_meta_booking_id data))),
          w_amount = rd_amount data\<rparr>)"

record verify_result =
  v_status :: string
  v_amount :: rat

datatype webhook_reply =
    SignatureVerificationFailed
  | NoReference
  | AlreadyProcessed
  | EscrowHeld
  | HandledFailure
  | HandledNoop
  | WebhookError

definition lower_char :: "char \<Rightarrow> char" where
  "lower_char c =
     (let n = (of_char c :: nat) in if 65 \<le> n \<and> n \<le> 90 then char_of (n + 32) else c)"

definition toLowerCase :: "string \<Rightarrow> string" where
  "toLowerCase s = map lower_char s"

definition successEvents :: "string list" where
  "successEvents = [''charge.success'', ''transfer.success'', ''successful'', ''charge.completed'']"

definition failureEvents :: "string list" where
  "failureEvents = [''failed'', ''charge.failed'', ''payment.failed'', ''cancelled'']"

definition isSuccess :: "webhook \<Rightarrow> bool" where
  "isSuccess w \<longleftrightarrow>
     toLowerCase (w_eventType w) \<in> set successEvents \<or> toLowerCase (w_dataStatus w) = ''success''"

definition isFailure :: "webhook \<Rightarrow> bool" where
  "isFailure w \<longleftrightarrow>
     toLowerCase (w_eventType w) \<in> set failureEvents \<or> toLowerCase (w_dataStatus w) = ''failed''"

text \<open>Lines 362 to 375: the booking by the payload's bookingId, else the escrow by gateway reference.\<close>

definition resolveTargets :: "webhook \<Rightarrow> store \<Rightarrow> booking option \<times> escrow option" where
  "resolveTargets w db =
     (if w_bookingId w \<noteq> [] then
        (case findBookingById (w_bookingId w) db of
           None \<Rightarrow> (None, None)
         | Some booking \<Rightarrow> (Some booking, findEscrowByBooking (b_id booking) db))
      else
        (case findEscrowByGatewayReference (w_reference w) db of
           None \<Rightarrow> (None, None)
         | Some escrow \<Rightarrow> (findBookingById (e_bookingId escrow) db, Some escrow)))"

text \<open>Lines 378 to 392: \<^verbatim>\<open>findOneAndUpdate\<close> with \<^verbatim>\<open>$setOnInsert\<close> and \<^verbatim>\<open>upsert\<close>.\<close>

definition upsertPendingEscrow :: "booking \<Rightarrow> string \<Rightarrow> string \<Rightarrow> oid \<Rightarrow> store \<Rightarrow> escrow \<times> store" where
  "upsertPendingEscrow booking gateway reference newId db =
     (case findEscrowByBooking (b_id booking) db of
        Some e \<Rightarrow> (e, db)
      | None \<Rightarrow>
          let e = \<lparr>e_id = newId, e_bookingId = b_id booking,
                   e_amount = orNum (b_escrowAmount booking) (orNum (b_totalAmount booking) 0),
                   e_state = ''pending'', e_paymentGateway = gateway,
                   e_gatewayReference = reference, e_reconciled = False, e_initiatedBy = []\<rparr>
          in (e, insertEscrow e db))"

definition dataAmount :: "string \<Rightarrow> webhook \<Rightarrow> rat" where
  "dataAmount gateway w =
     (if w_amount w \<noteq> 0 then w_amount w / (if gateway = ''paystack'' then 100 else 1) else 0)"

definition verify_amount :: "verify_result option \<Rightarrow> rat" where
  "verify_amount r = (case r of None \<Rightarrow> 0 | Some v \<Rightarrow> v_amount v)"

text \<open>Lines 428 and 490: \<^verbatim>\<open>booking?._id || escrow?.bookingId\<close>.\<close>

definition targetBookingId :: "booking option \<Rightarrow> escrow option \<Rightarrow> string" where
  "targetBookingId booking escrow =
     (case booking of
        Some b \<Rightarrow> orStr (b_id b) (case escrow of Some e \<Rightarrow> e_bookingId e | None \<Rightarrow> [])
      | None \<Rightarrow> (case escrow of Some e \<Rightarrow> e_bookingId e | None \<Rightarrow> []))"

text \<open>
  Lines 398 to 480, the success branch. \<open>verifyResult\<close> is the gateway's answer to
  \<^verbatim>\<open>verify(reference)\<close>, \<open>None\<close> when the call throws (the handler logs and goes on).
  The status the gateway reports is computed into \<^verbatim>\<open>verifiedStatus\<close> and never read.
  The writes run in one database transaction: when \<^verbatim>\<open>recordTransaction\<close> throws, which
  it does when neither a booking nor an escrow was found and the reference is new, the
  transaction is aborted and the reply is \<^verbatim>\<open>success: false\<close>.
\<close>

definition webhookSuccess ::
  "string \<Rightarrow> webhook \<Rightarrow> verify_result option \<Rightarrow> oid \<Rightarrow> oid
     \<Rightarrow> booking option \<Rightarrow> escrow option \<Rightarrow> store \<Rightarrow> webhook_reply \<times> store" where
  "webhookSuccess gateway w verifyResult newEscrowId newTxId booking escrow db =
     (let reference = w_reference w;
          verifiedAmount = orNum (verify_amount verifyResult) (dataAmount gateway w);
          existingTx = findTransactionByReference reference db;
          args = \<lparr>t_id = newTxId,
                  t_bookingId = targetBookingId booking escrow,
                  t_amount = Some (orNum verifiedAmount (dataAmount gateway w)),
                  t_type = ''escrow'', t_status = ''success'',
                  t_paymentGateway = gateway, t_reference = reference,
                  t_note = ''webhook_success''\<rparr>
      in if (case existingTx of None \<Rightarrow> False | Some t \<Rightarrow> t_status t = ''success'')
         then (AlreadyProcessed, db)
         else if rejectsNewTransaction args db then (WebhookError, db)
         else
           let (tx, db1) = recordTransaction args db;
               (escrow', db2) =
                 (case escrow of
                    None \<Rightarrow>
                      (case booking of
                         None \<Rightarrow> (None, db1)
                       | Some b \<Rightarrow>
                           let e = \<lparr>e_id = newEscrowId, e_bookingId = b_id b,
                                    e_amount = orNum verifiedAmount
                                       (orNum (b_escrowAmount b) (orNum (b_totalAmount b) 0)),
                                    e_state = ''held'', e_paymentGateway = gateway,
                                    e_gatewayReference = reference, e_reconciled = False,
                                    e_initiatedBy = []\<rparr>
                           in (Some e, insertEscrow e db1))
                  | Some e \<Rightarrow>
                      let e' = e\<lparr>e_state := ''held'', e_gatewayReference := reference,
                                 e_amount := orNum verifiedAmount (e_amount e)\<rparr>
                      in (Some e', saveEscrow e' db1));
               db3 =
                 (case booking of
                    None \<Rightarrow> db2
                  | Some b \<Rightarrow>
                      saveBooking
                        (b\<lparr>b_paymentStatus := ''escrowed'',
                           b_escrowAmount :=
                             orNum (case escrow' of None \<Rightarrow> 0 | Some e \<Rightarrow> e_amount e)
                               (orNum (b_escrowAmount b) (b_totalAmount b)),
                           b_paymentGateway := gateway,
                           b_escrowId :=
                             orStr (case escrow' of None \<Rightarrow> [] | Some e \<Rightarrow> e_id e) (b_escrowId b),
                           b_status := (if b_status b = ''pending'' then ''confirmed'' else b_status b)\<rparr>)
                        db2)
           in (EscrowHeld, db3))"

text \<open>
  Lines 483 to 519, the failure branch: no database transaction, no guard on the escrow's
  state. \<^verbatim>\<open>recordTransaction\<close> is the first write, so when it throws nothing was written.
\<close>

definition webhookFailure ::
  "string \<Rightarrow> webhook \<Rightarrow> oid \<Rightarrow> booking option \<Rightarrow> escrow option \<Rightarrow> store
     \<Rightarrow> webhook_reply \<times> store" where
  "webhookFailure gateway w newTxId booking escrow db =
     (let args = \<lparr>t_id = newTxId,
                  t_bookingId = targetBookingId booking escrow,
                  t_amount = Some (dataAmount gateway w),
                  t_type = ''escrow'', t_status = ''failed'',
                  t_paymentGateway = gateway, t_reference = w_reference w,
                  t_note = ''webhook_failed''\<rparr>
      in if rejectsNewTransaction args db then (WebhookError, db)
         else
           let (tx, db1) = recordTransaction args db;
               db2 = (case booking of None \<Rightarrow> db1
                      | Some b \<Rightarrow> saveBooking (b\<lparr>b_paymentStatus := ''failed''\<rparr>) db1);
               db3 = (case escrow of None \<Rightarrow> db2
                      | Some e \<Rightarrow> saveEscrow (e\<lparr>e_state := ''cancelled''\<rparr>) db2)
           in (HandledFailure, db3))"

text \<open>
  \<^verbatim>\<open>escrowService.handleWebhook\<close> from line 357 on, for the normalised webhook.
  \<open>verified\<close> is the result of the adapter's signature check. The handler never
  throws: every exception becomes a reply.
\<close>

definition handleWebhook ::
  "string \<Rightarrow> bool \<Rightarrow> webhook \<Rightarrow> verify_result option \<Rightarrow> oid \<Rightarrow> oid \<Rightarrow> oid \<Rightarrow> store
     \<Rightarrow> webhook_reply \<times> store" where
  "handleWebhook gateway verified w verifyResult upsertId newEscrowId newTxId db =
     (if gateway \<noteq> ''paystack'' \<and> gateway \<noteq> ''flutterwave'' then (WebhookError, db)
      else if \<not> verified then (SignatureVerificationFailed, db)
      else if w_reference w = [] then (NoReference, db)
      else
        let (booking, escrow0) = resolveTargets w db;
            (escrow, db1) =
              (case (escrow0, booking) of
                 (None, Some b) \<Rightarrow>
                   (let (e, d) = upsertPendingEscrow b gateway (w_reference w) upsertId db
                    in (Some e, d))
               | _ \<Rightarrow> (escrow0, db))
        in if isSuccess w
           then webhookSuccess gateway w verifyResult newEscrowId newTxId booking escrow db1
           else if isFailure w
           then webhookFailure gateway w newTxId booking escrow db1
           else (HandledNoop, db1))"

text \<open>The handler on the parsed body.\<close>

definition handleWebhookBody ::
  "string \<Rightarrow> bool \<Rightarrow> raw_body \<Rightarrow> verify_result option \<Rightarrow> oid \<Rightarrow> oid \<Rightarrow> oid \<Rightarrow> store
     \<Rightarrow> webhook_reply \<times> store" where
  "handleWebhookBody gateway verified body verifyResult upsertId newEscrowId newTxId db =
     handleWebhook gateway verified (normaliseWebhook gateway body) verifyResult
       upsertId newEscrowId newTxId db"

section \<open>Settlement\<close>

definition gracePeriodMs :: int where
  "gracePeriodMs = 3 * 24 * 60 * 60 * 1000"

text \<open>
  \<^verbatim>\<open>Transaction.create\<close> as the settlement service calls it: the document is validated
  against the schema, and the collection has a unique index on \<^verbatim>\<open>reference\<close>, so an
  insert whose reference is already stored is rejected.
\<close>

definition createTransaction :: "txn \<Rightarrow> store \<Rightarrow> error + store" where
  "createTransaction t db =
     (if \<not> validTransaction t then Inl ValidationError
      else (case findTransactionByReference (t_reference t) db of
              Some existing \<Rightarrow> Inl DuplicateReference
            | None \<Rightarrow> Inr (insertTransaction t db)))"

text \<open>Line 22: \<^verbatim>\<open>booking.completedAt || booking.updatedAt || now\<close>.\<close>

definition completedAtOr :: "int \<Rightarrow> booking \<Rightarrow> int" where
  "completedAtOr now booking =
     (case booking_completedAt booking of
        Some t \<Rightarrow> t
      | None \<Rightarrow> (case b_updatedAt booking of Some t \<Rightarrow> t | None \<Rightarrow> now))"

text \<open>
  \<^verbatim>\<open>settleEscrow\<close> of \<^verbatim>\<open>escrowSettlementService.js\<close>. \<open>now\<close> is the clock,
  \<open>newTxId\<close> the identifier of the payout Transaction. The function opens no database
  transaction: each \<^verbatim>\<open>await\<close> is a write of its own, so the store is returned with the
  outcome, also when the outcome is an exception. The result \<open>Inr None\<close> is the
  \<^verbatim>\<open>return null\<close> of line 30.

  Lines 34 to 36 assign \<^verbatim>\<open>status\<close> and \<^verbatim>\<open>releasedAt\<close> and save the escrow. Neither is
  a path of the Escrow schema and the function never touches \<^verbatim>\<open>state\<close>, so the save
  finds no modified path and writes nothing: the store after line 36 is the store before
  it. The payout Transaction of line 41 takes its amount from \<^verbatim>\<open>escrow.amountHeld\<close>. The
  trust-score recalculation at the end is wrapped in its own \<^verbatim>\<open>try\<close> and touches no
  document modelled here.
\<close>

definition settleEscrow :: "int \<Rightarrow> oid \<Rightarrow> oid \<Rightarrow> store \<Rightarrow> (error + escrow option) \<times> store" where
  "settleEscrow now newTxId bookingId db =
     (case findBookingById bookingId db of
        None \<Rightarrow> (Inl BookingNotFound, db)
      | Some booking \<Rightarrow>
     (case findEscrowByBooking bookingId db of
        None \<Rightarrow> (Inl EscrowNotFound, db)
      | Some escrow \<Rightarrow>
          if escrow_status escrow = Some ''released'' then (Inr (Some escrow), db)
          else
            let completedAt = completedAtOr now booking;
                graceExpired = (now - completedAt > gracePeriodMs);
                customerReviewed = b_customerReviewed booking;
                proReviewed = b_proReviewed booking
            in if \<not> graceExpired \<and> (\<not> customerReviewed \<or> \<not> proReviewed)
               then (Inr None, db)
               else if b_proId booking \<notin> set (users db) then (Inl ProNotFound, db)
               else
                 (case createTransaction
                         \<lparr>t_id = newTxId, t_bookingId = bookingId,
                          t_amount = escrow_amountHeld escrow, t_type = ''payout'',
                          t_status = ''success'', t_paymentGateway = [],
                          t_reference = ''PAYOUT-'' @ b_id booking, t_note = []\<rparr> db of
                    Inl err \<Rightarrow> (Inl err, db)
                  | Inr db2 \<Rightarrow>
                      let db3 = saveBooking
                            (booking\<lparr>b_paymentReleased := True, b_settledAt := Some now\<rparr>) db2
                      in (Inr (Some escrow), db3))))"

section \<open>Disputes\<close>

definition findDisputeById :: "oid \<Rightarrow> store \<Rightarrow> dispute option" where
  "findDisputeById i db = find (\<lambda>d. d_id d = i) (disputes db)"

definition saveDispute :: "dispute \<Rightarrow> store \<Rightarrow> store" where
  "saveDispute d db =
     db\<lparr>disputes := map (\<lambda>x. if d_id x = d_id d then d else x) (disputes db)\<rparr>"

text \<open>
  \<^verbatim>\<open>createDispute\<close> of \<^verbatim>\<open>disputeService.js\<close>: the booking must exist; then
  \<^verbatim>\<open>Dispute.create\<close> is given \<^verbatim>\<open>bookingId\<close>, \<^verbatim>\<open>raisedBy\<close>, \<^verbatim>\<open>reason\<close>,
  \<^verbatim>\<open>description\<close> and the status \<^verbatim>\<open>open\<close>. \<^verbatim>\<open>raisedBy\<close> is no path of the schema and
  is dropped; \<^verbatim>\<open>initiatorId\<close> and \<^verbatim>\<open>respondentId\<close> are not given. \<open>newDispute\<close> is
  the document that results; it is validated before it is inserted. Admins are notified after the insert (the notification
  service catches its own errors). The service imports Booking, Dispute and Transaction,
  not Escrow.
\<close>

definition newDispute :: "oid \<Rightarrow> string \<Rightarrow> string \<Rightarrow> oid \<Rightarrow> dispute" where
  "newDispute bookingId reason description newId =
     \<lparr>d_id = newId, d_bookingId = bookingId, d_initiatorId = [], d_respondentId = [],
      d_reason = reason, d_description = description, d_status = ''open'',
      d_resolution = None, d_resolvedBy = [], d_resolvedAt = None\<rparr>"

definition createDispute ::
  "oid \<Rightarrow> string \<Rightarrow> string \<Rightarrow> string \<Rightarrow> oid \<Rightarrow> store \<Rightarrow> error + (dispute \<times> store)" where
  "createDispute bookingId raisedBy reason description newId db =
     (case findBookingById bookingId db of
        None \<Rightarrow> Inl BookingNotFound
      | Some booking \<Rightarrow>
          let d = newDispute bookingId reason description newId
          in if validDispute d then Inr (d, db\<lparr>disputes := disputes db @ [d]\<rparr>)
             else Inl ValidationError)"

text \<open>
  The store after a call that returns its result with the store, or throws before it has
  written anything.
\<close>

definition store_after :: "error + ('a \<times> store) \<Rightarrow> store \<Rightarrow> store" where
  "store_after result db = (case result of Inl err \<Rightarrow> db | Inr (x, db') \<Rightarrow> db')"

text \<open>
  \<^verbatim>\<open>resolveDispute\<close>. \<open>resolution\<close> is \<open>None\<close> when the caller passes none
  (\<^verbatim>\<open>undefined\<close>). \<^verbatim>\<open>winnerId\<close> is assigned to a property the schema does not declare
  and is not stored. The dispute is validated and saved first. Then the booking is
  loaded: a missing booking makes \<^verbatim>\<open>booking.proId\<close> throw; a booking that exists is
  given the status \<^verbatim>\<open>dispute_resolved\<close> and saved, and that save validates the status
  against the enumeration of the Booking schema. The trust-score service (\<open>trustOk\<close>)
  may throw as well. There is no database transaction, so all of these exceptions come
  after the dispute was written.
\<close>

definition resolveDispute ::
  "oid \<Rightarrow> string \<Rightarrow> string option \<Rightarrow> string \<Rightarrow> int \<Rightarrow> bool \<Rightarrow> store
     \<Rightarrow> (error + dispute) \<times> store" where
  "resolveDispute disputeId resolvedBy resolution winnerId now trustOk db =
     (case findDisputeById disputeId db of
        None \<Rightarrow> (Inl DisputeNotFound, db)
      | Some d \<Rightarrow>
          let d' = d\<lparr>d_status := ''resolved'', d_resolution := resolution,
                     d_resolvedBy := resolvedBy, d_resolvedAt := Some now\<rparr>
          in if \<not> validDispute d' then (Inl ValidationError, db)
             else
               let db1 = saveDispute d' db
               in (case findBookingById (d_bookingId d') db1 of
                     None \<Rightarrow> (Inl BookingIsNull, db1)
                   | Some b \<Rightarrow>
                       let b' = b\<lparr>b_status := ''dispute_resolved''\<rparr>
                       in if b_status b' \<notin> set bookingStatuses then (Inl ValidationError, db1)
                          else
                            let db2 = saveBooking b' db1
                            in if trustOk then (Inr d', db2) else (Inl TrustScoreFailed, db2)))"

section \<open>Reconciliation\<close>

record issue =
  i_type :: string
  i_severity :: string
  i_transactionId :: string
  i_escrowId :: string
  i_bookingId :: string

datatype run_by = RunByDefault | RunByNull | RunByUser oid

record report =
  rp_runBy :: "oid option"
  rp_totalTransactionsChecked :: nat
  rp_totalEscrowsChecked :: nat
  rp_totalIssues :: nat
  rp_issues :: "issue list"

definition MAX_ISSUES :: nat where
  "MAX_ISSUES = 500"

definition numberOr0 :: "rat option \<Rightarrow> rat" where
  "numberOr0 a = (case a of None \<Rightarrow> 0 | Some x \<Rightarrow> x)"

text \<open>The body of the transaction loop of \<^verbatim>\<open>reconcileTransactions\<close>: the issues one pass pushes.\<close>

definition checkTransaction :: "store \<Rightarrow> txn \<Rightarrow> issue list" where
  "checkTransaction db tx =
     (if t_bookingId tx = [] then
        [\<lparr>i_type = ''txn_without_booking'', i_severity = ''high'',
          i_transactionId = t_id tx, i_escrowId = [], i_bookingId = []\<rparr>]
      else
        (case findBookingById (t_bookingId tx) db of
           None \<Rightarrow>
             [\<lparr>i_type = ''txn_booking_missing'', i_severity = ''high'',
               i_transactionId = t_id tx, i_escrowId = [], i_bookingId = t_bookingId tx\<rparr>]
         | Some booking \<Rightarrow>
             if t_type tx = ''payment'' \<and> t_status tx = ''success'' then
               (case findEscrowByBooking (t_bookingId tx) db of
                  None \<Rightarrow>
                    [\<lparr>i_type = ''txn_missing_escrow'', i_severity = ''high'',
                      i_transactionId = t_id tx, i_escrowId = [], i_bookingId = t_bookingId tx\<rparr>]
                | Some escrow \<Rightarrow>
                    (if numberOr0 (escrow_amountHeld escrow) \<noteq> numberOr0 (t_amount tx) then
                       [\<lparr>i_type = ''amount_mismatch'', i_severity = ''high'',
                         i_transactionId = t_id tx, i_escrowId = e_id escrow,
                         i_bookingId = t_bookingId tx\<rparr>]
                     else []) @
                    (if escrow_status escrow = Some ''released'' \<and> \<not> b_paymentReleased booking then
                       [\<lparr>i_type = ''escrow_released_booking_not_updated'', i_severity = ''medium'',
                         i_transactionId = t_id tx, i_escrowId = e_id escrow,
                         i_bookingId = b_id booking\<rparr>]
                     else []))
             else []))"

fun scanTransactions :: "int \<Rightarrow> store \<Rightarrow> txn list \<Rightarrow> issue list \<Rightarrow> nat \<Rightarrow> issue list \<times> nat" where
  "scanTransactions limit db [] issues txChecked = (issues, txChecked)"
| "scanTransactions limit db (tx # rest) issues txChecked =
     (if int txChecked \<ge> limit \<or> length issues \<ge> MAX_ISSUES then (issues, txChecked)
      else scanTransactions limit db rest (issues @ checkTransaction db tx) (Suc txChecked))"

definition findSuccessfulPayment :: "oid \<Rightarrow> store \<Rightarrow> txn option" where
  "findSuccessfulPayment bookingId db =
     find (\<lambda>t. t_bookingId t = bookingId \<and> t_type t = ''payment'' \<and> t_status t = ''success'')
       (transactions db)"

definition checkEscrow :: "store \<Rightarrow> escrow \<Rightarrow> issue list" where
  "checkEscrow db esc =
     (case findBookingById (e_bookingId esc) db of
        None \<Rightarrow>
          [\<lparr>i_type = ''escrow_without_booking'', i_severity = ''high'',
            i_transactionId = [], i_escrowId = e_id esc, i_bookingId = e_bookingId esc\<rparr>]
      | Some booking \<Rightarrow>
          (case findSuccessfulPayment (e_bookingId esc) db of
             None \<Rightarrow>
               [\<lparr>i_type = ''escrow_without_txn'', i_severity = ''medium'',
                 i_transactionId = [], i_escrowId = e_id esc, i_bookingId = e_bookingId esc\<rparr>]
           | Some txn \<Rightarrow> []))"

fun scanEscrows :: "int \<Rightarrow> store \<Rightarrow> escrow list \<Rightarrow> issue list \<Rightarrow> nat \<Rightarrow> issue list \<times> nat" where
  "scanEscrows limit db [] issues escrowsChecked = (issues, escrowsChecked)"
| "scanEscrows limit db (esc # rest) issues escrowsChecked =
     (if int escrowsChecked \<ge> limit \<or> length issues \<ge> MAX_ISSUES then (issues, escrowsChecked)
      else scanEscrows limit db rest (issues @ checkEscrow db esc) (Suc escrowsChecked))"

text \<open>
  The \<^verbatim>\<open>runBy\<close> of a run: left out by the caller, so that the parameter's default, the
  string \<^verbatim>\<open>system\<close>, is used; \<^verbatim>\<open>null\<close>, as the scheduled job passes it; or the
  identifier of the administrator, as the controller passes it. The schema of the report
  declares \<^verbatim>\<open>runBy\<close> as an ObjectId, and \<^verbatim>\<open>system\<close> cannot be cast to one.
\<close>

definition castRunBy :: "run_by \<Rightarrow> error + oid option" where
  "castRunBy runBy =
     (case runBy of
        RunByDefault \<Rightarrow> Inl CastError
      | RunByNull \<Rightarrow> Inr None
      | RunByUser u \<Rightarrow> Inr (Some u))"

text \<open>
  \<^verbatim>\<open>reconcileTransactions\<close> of \<^verbatim>\<open>reconciliationService.js\<close>: both scans, then
  \<^verbatim>\<open>ReconciliationReport.create\<close>. The lookups of the model cannot throw, so the
  \<^verbatim>\<open>reconcile_error\<close> branches are never taken; the notifications after the report read
  it and write no modelled document.
\<close>

definition reconcileTransactions :: "int \<Rightarrow> run_by \<Rightarrow> store \<Rightarrow> error + report" where
  "reconcileTransactions limit runBy db =
     (let (issues1, txChecked) = scanTransactions limit db (transactions db) [] 0;
          (issues, escrowsChecked) = scanEscrows limit db (escrows db) issues1 0
      in (case castRunBy runBy of
            Inl err \<Rightarrow> Inl err
          | Inr by \<Rightarrow>
              Inr \<lparr>rp_runBy = by, rp_totalTransactionsChecked = txChecked,
                   rp_totalEscrowsChecked = escrowsChecked, rp_totalIssues = length issues,
                   rp_issues = take MAX_ISSUES issues\<rparr>))"

text \<open>
  \<^verbatim>\<open>escrowService.reconcileEscrows\<close>, called without \<^verbatim>\<open>since\<close>: every escrow that is not
  yet reconciled is verified against the gateway. \<open>verify gateway reference\<close> is the
  status the gateway reports, \<open>None\<close> when the call throws.
\<close>

record reconcile_summary =
  s_checked :: nat
  s_reconciled :: nat
  s_flagged :: nat
  s_errors :: "oid list"

definition updateEscrowById :: "oid \<Rightarrow> (escrow \<Rightarrow> escrow) \<Rightarrow> store \<Rightarrow> store" where
  "updateEscrowById i f db =
     db\<lparr>escrows := map (\<lambda>x. if e_id x = i then f x else x) (escrows db)\<rparr>"

fun reconcileLoop ::
  "(string \<Rightarrow> string \<Rightarrow> string option) \<Rightarrow> escrow list \<Rightarrow> reconcile_summary \<Rightarrow> store
     \<Rightarrow> reconcile_summary \<times> store" where
  "reconcileLoop verify [] summary db = (summary, db)"
| "reconcileLoop verify (e # rest) summary db =
     (let summary1 = summary\<lparr>s_checked := s_checked summary + 1\<rparr>
      in if e_gatewayReference e = []
         then reconcileLoop verify rest (summary1\<lparr>s_flagged := s_flagged summary1 + 1\<rparr>) db
         else
           (case verify (orStr (e_paymentGateway e) ''paystack'') (e_gatewayReference e) of
              None \<Rightarrow>
                reconcileLoop verify rest (summary1\<lparr>s_errors := s_errors summary1 @ [e_id e]\<rparr>) db
            | Some status \<Rightarrow>
                if toLowerCase status = ''success'' \<and> e_state e \<notin> set [''held'', ''released'']
                then reconcileLoop verify rest
                       (summary1\<lparr>s_reconciled := s_reconciled summary1 + 1\<rparr>)
                       (updateEscrowById (e_id e)
                          (\<lambda>x. x\<lparr>e_state := ''held'', e_reconciled := True\<rparr>) db)
                else reconcileLoop verify rest
                       (summary1\<lparr>s_reconciled := s_reconciled summary1 + 1\<rparr>)
                       (updateEscrowById (e_id e) (\<lambda>x. x\<lparr>e_reconciled := True\<rparr>) db)))"

definition reconcileEscrows ::
  "(string \<Rightarrow> string \<Rightarrow> string option) \<Rightarrow> store \<Rightarrow> reconcile_summary \<times> store" where
  "reconcileEscrows verify db =
     reconcileLoop verify (filter (\<lambda>e. \<not> e_reconciled e) (escrows db))
       \<lparr>s_checked = 0, s_reconciled = 0, s_flagged = 0, s_errors = []\<rparr> db"

section \<open>Sequences of operations\<close>

text \<open>
  The operations that move money out of escrow, as requests arriving one after another.
  A request that throws leaves the store as its own writes left it (for release and
  refund, unchanged).
\<close>

datatype operation =
    Release oid string string string oid "payout_result option"
  | Refund oid string string string oid "payout_result option"
  | Settle int oid oid

fun apply_operation :: "operation \<Rightarrow> store \<Rightarrow> store" where
  "apply_operation (Release bookingId initiatedBy note localRef newTxId payoutResult) db =
     (case releaseFunds bookingId initiatedBy note localRef newTxId payoutResult db of
        Inl err \<Rightarrow> db
      | Inr (reply, db') \<Rightarrow> db')"
| "apply_operation (Refund bookingId initiatedBy reason localRef newTxId refundResult) db =
     (case refundFunds bookingId initiatedBy reason localRef newTxId refundResult db of
        Inl err \<Rightarrow> db
      | Inr (reply, db') \<Rightarrow> db')"
| "apply_operation (Settle now newTxId bookingId) db = snd (settleEscrow now newTxId bookingId db)"

fun run :: "operation list \<Rightarrow> store \<Rightarrow> store" where
  "run [] db = db"
| "run (op # ops) db = run ops (apply_operation op db)"

definition escrowStateById :: "oid \<Rightarrow> store \<Rightarrow> string option" where
  "escrowStateById i db = map_option e_state (find (\<lambda>e. e_id e = i) (escrows db))"

section \<open>Example stores\<close>

text \<open>
  Booking \<open>B1\<close> of 5000 with professional \<open>P1\<close>; the store before payment, after
  \<^verbatim>\<open>initializeEscrow\<close> with gateway reference \<open>R1\<close>, and after the success webhook for
  \<open>R1\<close>.
\<close>

definition demo_booking :: booking where
  "demo_booking =
     \<lparr>b_id = ''B1'', b_proId = ''P1'', b_status = ''pending'', b_totalAmount = 5000,
      b_escrowAmount = 0, b_paymentStatus = ''unpaid'', b_paymentGateway = [],
      b_escrowId = [], b_customerReviewed = False, b_proReviewed = False,
      b_paymentReleased = False, b_settledAt = None, b_updatedAt = None\<rparr>"

definition demo_store :: store where
  "demo_store =
     \<lparr>bookings = [demo_booking], escrows = [], transactions = [], users = [''P1''],
      disputes = []\<rparr>"

definition demo_escrow :: escrow where
  "demo_escrow =
     \<lparr>e_id = ''E1'', e_bookingId = ''B1'', e_amount = 5000, e_state = ''pending'',
      e_paymentGateway = ''paystack'', e_gatewayReference = [], e_reconciled = False,
      e_initiatedBy = []\<rparr>"

definition demo_pending_tx :: txn where
  "demo_pending_tx =
     \<lparr>t_id = ''T1'', t_bookingId = ''B1'', t_amount = Some 5000, t_type = ''escrow'',
      t_status = ''pending'', t_paymentGateway = ''paystack'', t_reference = ''R1'',
      t_note = ''initialization''\<rparr>"

definition demo_initialized :: store where
  "demo_initialized =
     \<lparr>bookings = [demo_booking\<lparr>b_paymentStatus := ''pending'', b_paymentGateway := ''paystack''\<rparr>],
      escrows = [demo_escrow], transactions = [demo_pending_tx], users = [''P1''],
      disputes = []\<rparr>"

definition demo_webhook :: webhook where
  "demo_webhook =
     \<lparr>w_eventType = ''charge.success'', w_dataStatus = ''success'', w_reference = ''R1'',
      w_bookingId = ''B1'', w_amount = 500000\<rparr>"

definition demo_body :: raw_body where
  "demo_body =
     \<lparr>rb_event = Some ''charge.success'',
      rb_data = Some (no_data\<lparr>rd_reference := Some ''R1'', rd_status := Some ''success'',
                               rd_amount := 500000, rd_metadata_bookingId := Some ''B1''\<rparr>),
      rb_own = no_data\<rparr>"

definition demo_verify :: "verify_result option" where
  "demo_verify = Some \<lparr>v_status = ''success'', v_amount = 5000\<rparr>"

definition demo_held_escrow :: escrow where
  "demo_held_escrow = demo_escrow\<lparr>e_state := ''held'', e_gatewayReference := ''R1''\<rparr>"

definition demo_held_booking :: booking where
  "demo_held_booking =
     demo_booking\<lparr>b_status := ''confirmed'', b_escrowAmount := 5000,
                  b_paymentStatus := ''escrowed'', b_paymentGateway := ''paystack'',
                  b_escrowId := ''E1''\<rparr>"

definition demo_held :: store where
  "demo_held =
     \<lparr>bookings = [demo_held_booking], escrows = [demo_held_escrow],
      transactions = [demo_pending_tx], users = [''P1''], disputes = []\<rparr>"

text \<open>
  Two bookings whose releases reach the gateway in the same millisecond: the placeholder
  adapter names its transfers \<^verbatim>\<open>REL-PS-<clock>\<close>, so both payouts come back with the
  reference \<open>REL-PS-1\<close>. Booking \<open>B0\<close> has been released; booking \<open>B1\<close> is held.
\<close>

definition clash_release_tx :: txn where
  "clash_release_tx =
     \<lparr>t_id = ''T0'', t_bookingId = ''B0'', t_amount = Some 700, t_type = ''release'',
      t_status = ''success'', t_paymentGateway = ''paystack'', t_reference = ''REL-PS-1'',
      t_note = ''release''\<rparr>"

definition clash_booking :: booking where
  "clash_booking =
     demo_held_booking\<lparr>b_id := ''B0'', b_totalAmount := 700, b_escrowAmount := 700,
                       b_escrowId := ''E0'', b_status := ''completed'',
                       b_paymentStatus := ''released''\<rparr>"

definition clash_escrow :: escrow where
  "clash_escrow =
     demo_held_escrow\<lparr>e_id := ''E0'', e_bookingId := ''B0'', e_amount := 700,
                      e_state := ''released'', e_gatewayReference := ''R0''\<rparr>"

definition clash_store :: store where
  "clash_store =
     \<lparr>bookings = [clash_booking, demo_held_booking],
      escrows = [clash_escrow, demo_held_escrow],
      transactions = [clash_release_tx], users = [''P1''], disputes = []\<rparr>"

definition clash_store_after :: store where
  "clash_store_after =
     \<lparr>bookings = [clash_booking,
                  demo_held_booking\<lparr>b_status := ''completed'', b_paymentStatus := ''released''\<rparr>],
      escrows = [clash_escrow,
                 demo_held_escrow\<lparr>e_state := ''released'', e_initiatedBy := ''A1''\<rparr>],
      transactions = [clash_release_tx], users = [''P1''], disputes = []\<rparr>"

text \<open>
  A paid booking whose escrow document is missing: the ledger holds the successful payment
  of \<open>B1\<close> as \<^verbatim>\<open>escrowService.js\<close> records it (type \<^verbatim>\<open>escrow\<close>), and no Escrow exists.
\<close>

definition paid_tx :: txn where
  "paid_tx = demo_pending_tx\<lparr>t_status := ''success'', t_note := ''webhook_success''\<rparr>"

definition drift_store :: store where
  "drift_store =
     \<lparr>bookings = [demo_held_booking], escrows = [], transactions = [paid_tx],
      users = [''P1''], disputes = []\<rparr>"

text \<open>
  A ledger of 502 entries for booking \<open>B9\<close>, which no longer exists: each of them is an
  issue. Entry \<open>n\<close> has its own identifier and reference (\<open>T\<close> and \<open>R\<close> followed by
  \<open>n\<close> strokes).
\<close>

definition orphan_tx :: "nat \<Rightarrow> txn" where
  "orphan_tx n =
     \<lparr>t_id = ''T'' @ replicate n (CHR ''i''), t_bookingId = ''B9'', t_amount = Some 5000,
      t_type = ''escrow'', t_status = ''pending'', t_paymentGateway = ''paystack'',
      t_reference = ''R'' @ replicate n (CHR ''i''), t_note = ''initialization''\<rparr>"

definition orphan_store :: store where
  "orphan_store =
     \<lparr>bookings = [], escrows = [], transactions = map orphan_tx [0..<502], users = [],
      disputes = []\<rparr>"

text \<open>
  Booking \<open>B1\<close> completed, last written at instant 0, with its escrow held: reviewed by
  both parties, or by the customer only; with the professional's user record present or
  missing; with the reference \<open>PAYOUT-B1\<close> already in the ledger; and with the escrow
  in state \<^verbatim>\<open>released\<close>.
\<close>

definition reviewed_booking :: booking where
  "reviewed_booking =
     demo_held_booking\<lparr>b_status := ''completed'', b_customerReviewed := True,
                       b_proReviewed := True, b_updatedAt := Some 0\<rparr>"

definition reviewed_store :: store where
  "reviewed_store =
     \<lparr>bookings = [reviewed_booking], escrows = [demo_held_escrow], transactions = [paid_tx],
      users = [''P1''], disputes = []\<rparr>"

definition one_review_store :: store where
  "one_review_store = reviewed_store\<lparr>bookings := [reviewed_booking\<lparr>b_proReviewed := False\<rparr>]\<rparr>"

definition pro_missing_store :: store where
  "pro_missing_store = reviewed_store\<lparr>users := []\<rparr>"

definition payout_tx :: txn where
  "payout_tx =
     \<lparr>t_id = ''T0'', t_bookingId = ''B1'', t_amount = Some 5000, t_type = ''payout'',
      t_status = ''success'', t_paymentGateway = [], t_reference = ''PAYOUT-B1'', t_note = []\<rparr>"

definition payout_taken_store :: store where
  "payout_taken_store = reviewed_store\<lparr>transactions := [paid_tx, payout_tx]\<rparr>"

definition released_reviewed_store :: store where
  "released_reviewed_store =
     reviewed_store\<lparr>escrows := [demo_held_escrow\<lparr>e_state := ''released''\<rparr>]\<rparr>"

text \<open>
  An open dispute on \<open>B1\<close> between customer \<open>C1\<close> and professional \<open>P1\<close>, as the schema
  admits it, and the store that holds it.
\<close>

definition demo_dispute :: dispute where
  "demo_dispute =
     \<lparr>d_id = ''D1'', d_bookingId = ''B1'', d_initiatorId = ''C1'', d_respondentId = ''P1'',
      d_reason = ''no show'', d_description = [], d_status = ''open'', d_resolution = None,
      d_resolvedBy = [], d_resolvedAt = None\<rparr>"

definition disputed_store :: store where
  "disputed_store = reviewed_store\<lparr>disputes := [demo_dispute]\<rparr>"

text \<open>
  Booking \<open>B1\<close> after its escrow was released, or refunded, by an administrator; and a
  gateway that reports every reference as successfully paid.
\<close>

definition released_escrow :: escrow where
  "released_escrow = demo_held_escrow\<lparr>e_state := ''released'', e_initiatedBy := ''A1''\<rparr>"

definition release_tx :: txn where
  "release_tx =
     \<lparr>t_id = ''T2'', t_bookingId = ''B1'', t_amount = Some 5000, t_type = ''release'',
      t_status = ''success'', t_paymentGateway = ''paystack'', t_reference = ''REL-PS-1'',
      t_note = ''release''\<rparr>"

definition released_store :: store where
  "released_store =
     \<lparr>bookings = [demo_held_booking\<lparr>b_status := ''completed'', b_paymentStatus := ''released''\<rparr>],
      escrows = [released_escrow], transactions = [demo_pending_tx, release_tx],
      users = [''P1''], disputes = []\<rparr>"

definition refunded_store :: store where
  "refunded_store = demo_held\<lparr>escrows := [demo_held_escrow\<lparr>e_state := ''refunded''\<rparr>]\<rparr>"

definition gateway_reports_success :: "string \<Rightarrow> string \<Rightarrow> string option" where
  "gateway_reports_success gateway reference = Some ''success''"

section \<open>Properties\<close>

subsection \<open>Store components left alone by a write\<close>

lemma transactions_saveEscrow: "transactions (saveEscrow e db) = transactions db"
  by (simp add: saveEscrow_def)

lemma transactions_saveBooking: "transactions (saveBooking b db) = transactions db"
  by (simp add: saveBooking_def)

lemma transactions_insertEscrow: "transactions (insertEscrow e db) = transactions db"
  by (simp add: insertEscrow_def)

lemma transactions_upsert:
  "transactions (snd (upsertPendingEscrow b g r i db)) = transactions db"
  by (simp add: upsertPendingEscrow_def Let_def transactions_insertEscrow split: option.splits)

lemma recordTransaction_existing:
  "t_reference args \<noteq> [] \<Longrightarrow> findTransactionByReference (t_reference args) db = Some existing
     \<Longrightarrow> recordTransaction args db = (existing, db)"
  by (simp add: recordTransaction_def)

lemma webhookSuccess_existing_not_success:
  assumes "w_reference w \<noteq> []"
      and "findTransactionByReference (w_reference w) db = Some t"
      and "t_status t \<noteq> ''success''"
  shows "fst (webhookSuccess gateway w vr i2 i3 booking escrow db) = EscrowHeld
       \<and> transactions (snd (webhookSuccess gateway w vr i2 i3 booking escrow db)) = transactions db"
  using assms
  by (simp add: webhookSuccess_def rejectsNewTransaction_def Let_def recordTransaction_def
      transactions_saveEscrow transactions_saveBooking transactions_insertEscrow
      split: option.splits prod.splits)

lemma transactions_after_upsert_step:
  "transactions (snd (case (escrow0, booking) of
                 (None, Some b) \<Rightarrow>
                   (let (e, d) = upsertPendingEscrow b gateway r upsertId db
                    in (Some e, d))
               | _ \<Rightarrow> (escrow0, db))) = transactions db"
proof -
  have "\<And>b e d. upsertPendingEscrow b gateway r upsertId db = (e, d)
          \<Longrightarrow> transactions d = transactions db"
    using transactions_upsert by (metis snd_conv)
  then show ?thesis by (auto split: option.splits prod.splits)
qed

subsection \<open>The ledger is write-once per reference\<close>

text \<open>
  C10. A call of \<^verbatim>\<open>recordTransaction\<close> whose reference is already in the ledger returns
  the stored document and writes nothing, whatever status, amount and type the call
  carries. In particular a verified success webhook for a reference whose ledger entry is
  still \<^verbatim>\<open>pending\<close> runs the success branch to its end (the reply is the one of a held
  escrow) and leaves the ledger, and so the entry's status, as it was.
\<close>

theorem ledger_write_once:
  "(t_reference args \<noteq> [] \<and> findTransactionByReference (t_reference args) db = Some existing
      \<longrightarrow> recordTransaction args db = (existing, db))
   \<and> (gateway \<in> {''paystack'', ''flutterwave''} \<and> w_reference w \<noteq> [] \<and> isSuccess w
       \<and> findTransactionByReference (w_reference w) db' = Some t \<and> t_status t = ''pending''
      \<longrightarrow> fst (handleWebhook gateway True w vr i1 i2 i3 db') = EscrowHeld
        \<and> transactions (snd (handleWebhook gateway True w vr i1 i2 i3 db')) = transactions db'
        \<and> findTransactionByReference (w_reference w)
             (snd (handleWebhook gateway True w vr i1 i2 i3 db')) = Some t)"
proof (intro conjI impI)
  assume "t_reference args \<noteq> [] \<and> findTransactionByReference (t_reference args) db = Some existing"
  then show "recordTransaction args db = (existing, db)"
    by (simp add: recordTransaction_existing)
next
  assume a: "gateway \<in> {''paystack'', ''flutterwave''} \<and> w_reference w \<noteq> [] \<and> isSuccess w
       \<and> findTransactionByReference (w_reference w) db' = Some t \<and> t_status t = ''pending''"
  obtain booking escrow0 where rt: "resolveTargets w db' = (booking, escrow0)"
    by (cases "resolveTargets w db'") auto
  define p where "p = (case (escrow0, booking) of
                 (None, Some b) \<Rightarrow>
                   (let (e, d) = upsertPendingEscrow b gateway (w_reference w) i1 db'
                    in (Some e, d))
               | _ \<Rightarrow> (escrow0, db'))"
  have tp: "transactions (snd p) = transactions db'"
    unfolding p_def by (rule transactions_after_upsert_step)
  have ft: "findTransactionByReference (w_reference w) (snd p) = Some t"
    using a tp by (simp add: findTransactionByReference_def)
  have hw: "handleWebhook gateway True w vr i1 i2 i3 db'
          = webhookSuccess gateway w vr i2 i3 booking (fst p) (snd p)"
    using a rt by (auto simp add: handleWebhook_def p_def split: prod.splits)
  have ws: "fst (webhookSuccess gateway w vr i2 i3 booking (fst p) (snd p)) = EscrowHeld
       \<and> transactions (snd (webhookSuccess gateway w vr i2 i3 booking (fst p) (snd p)))
           = transactions (snd p)"
    using a ft by (intro webhookSuccess_existing_not_success) auto
  show "fst (handleWebhook gateway True w vr i1 i2 i3 db') = EscrowHeld"
    using hw ws by simp
  show tr: "transactions (snd (handleWebhook gateway True w vr i1 i2 i3 db')) = transactions db'"
    using hw ws tp by simp
  show "findTransactionByReference (w_reference w)
          (snd (handleWebhook gateway True w vr i1 i2 i3 db')) = Some t"
    using a tr by (simp add: findTransactionByReference_def)
qed

theorem ledger_write_once_witness:
  "recordTransaction (demo_pending_tx\<lparr>t_id := ''T2'', t_status := ''success'', t_amount := Some 1\<rparr>)
       demo_initialized = (demo_pending_tx, demo_initialized)
   \<and> fst (handleWebhook ''paystack'' True demo_webhook demo_verify ''E2'' ''E3'' ''T2''
             demo_initialized) = EscrowHeld
   \<and> map t_status (transactions (snd (handleWebhook ''paystack'' True demo_webhook demo_verify
             ''E2'' ''E3'' ''T2'' demo_initialized))) = [''pending'']"
  using ledger_write_once [of "demo_pending_tx\<lparr>t_id := ''T2'', t_status := ''success'', t_amount := Some 1\<rparr>"
      demo_initialized demo_pending_tx "''paystack''" demo_webhook demo_initialized
      demo_pending_tx demo_verify "''E2''" "''E3''" "''T2''"]
  by (simp add: demo_initialized_def demo_pending_tx_def demo_webhook_def
      findTransactionByReference_def isSuccess_def toLowerCase_def lower_char_def
      successEvents_def)

subsection \<open>Webhook delivery after initialization\<close>

text \<open>
  C1, evaluated on the ordinary flow. \<^verbatim>\<open>initializeEscrow\<close> for booking \<open>B1\<close> records the
  pending ledger entry under the gateway's reference \<open>R1\<close>. The success webhook for
  \<open>R1\<close> is then delivered twice. Neither delivery takes the idempotent exit: both run
  the success branch and write the escrow as held, and after each the ledger still holds
  the single entry for \<open>R1\<close> with status \<^verbatim>\<open>pending\<close>, so no Transaction with status
  \<^verbatim>\<open>success\<close> exists for \<open>R1\<close>.
\<close>

theorem webhook_after_initialize_no_success_entry:
  "initializeEscrow ''B1'' 5000 ''paystack'' (Some ''R1'') ''E1'' ''T1'' demo_store
     = Inr (Initialized ''R1'' ''E1'', demo_initialized)
   \<and> normaliseWebhook ''paystack'' demo_body = demo_webhook
   \<and> handleWebhookBody ''paystack'' True demo_body demo_verify ''E2'' ''E3'' ''T2'' demo_initialized
     = (EscrowHeld, demo_held)
   \<and> handleWebhookBody ''paystack'' True demo_body demo_verify ''E4'' ''E5'' ''T3'' demo_held
     = (EscrowHeld, demo_held)
   \<and> map t_reference (transactions demo_held) = [''R1'']
   \<and> map t_status (transactions demo_held) = [''pending'']"
  by code_simp

lemmas model_defs =
  findBookingById_def findEscrowByBooking_def findEscrowByGatewayReference_def
  findTransactionByReference_def saveEscrow_def insertEscrow_def saveBooking_def
  insertTransaction_def recordTransaction_def payout_ok_def payout_ref_def orNum_def
  orStr_def releaseFunds_def refundFunds_def Let_def

lemmas demo_defs =
  demo_booking_def demo_store_def demo_escrow_def demo_pending_tx_def demo_initialized_def
  demo_webhook_def demo_verify_def demo_held_escrow_def demo_held_booking_def demo_held_def
  clash_booking_def clash_escrow_def clash_release_tx_def clash_store_def clash_store_after_def

subsection \<open>Lookups after a write\<close>

lemma find_escrow_by_booking_after_save:
  "find (\<lambda>x. e_bookingId x = B) xs = Some e \<Longrightarrow> e_bookingId e' = B \<Longrightarrow> e_id e' = e_id e
     \<Longrightarrow> find (\<lambda>x. e_bookingId x = B) (map (\<lambda>x. if e_id x = e_id e' then e' else x) xs) = Some e'"
  by (induction xs) (auto split: if_splits)

lemma find_booking_by_id_after_save:
  "find (\<lambda>x. b_id x = B) xs = Some b \<Longrightarrow> b_id b' = B
     \<Longrightarrow> find (\<lambda>x. b_id x = B) (map (\<lambda>x. if b_id x = b_id b' then b' else x) xs) = Some b'"
  by (induction xs) (auto split: if_splits)

lemma find_Some_pred: "find P xs = Some x \<Longrightarrow> P x"
  by (induction xs) (auto split: if_splits)

lemma find_Some_mem: "find P xs = Some x \<Longrightarrow> x \<in> set xs"
  by (induction xs) (auto split: if_splits)

lemma escrows_recordTransaction: "escrows (snd (recordTransaction a db)) = escrows db"
  by (simp add: recordTransaction_def insertTransaction_def split: option.splits)

lemma bookings_recordTransaction: "bookings (snd (recordTransaction a db)) = bookings db"
  by (simp add: recordTransaction_def insertTransaction_def split: option.splits)

lemma recordTransaction_fresh:
  "findTransactionByReference (t_reference a) db = None
     \<Longrightarrow> recordTransaction a db = (a, insertTransaction a db)"
  by (simp add: recordTransaction_def)

lemma releaseFunds_unfold:
  assumes "findBookingById bookingId db = Some booking"
      and "findEscrowByBooking (b_id booking) db = Some escrow"
      and "e_state escrow \<in> {''held'', ''pending'', ''disputed''}"
  shows "releaseFunds bookingId initiatedBy note localRef newTxId payoutResult db =
     Inr (\<lparr>r_success = payout_ok payoutResult, r_reference = orStr (payout_ref payoutResult) localRef\<rparr>,
          saveBooking
            (booking\<lparr>b_paymentStatus := (if payout_ok payoutResult then ''released'' else b_paymentStatus booking),
                     b_status := (if payout_ok payoutResult then ''completed'' else b_status booking)\<rparr>)
            (saveEscrow
               (escrow\<lparr>e_state := (if payout_ok payoutResult then ''released'' else ''disputed''),
                       e_initiatedBy := initiatedBy\<rparr>)
               (snd (recordTransaction
                  \<lparr>t_id = newTxId, t_bookingId = b_id booking,
                   t_amount = Some (orNum (e_amount escrow) (orNum (b_escrowAmount booking) (b_totalAmount booking))),
                   t_type = ''release'',
                   t_status = (if payout_ok payoutResult then ''success'' else ''failed''),
                   t_paymentGateway = orStr (e_paymentGateway escrow) (orStr (b_paymentGateway booking) ''paystack''),
                   t_reference = orStr (payout_ref payoutResult) localRef,
                   t_note = orStr note ''release''\<rparr> db))))"
  using assms by (auto simp add: releaseFunds_def Let_def split: prod.splits)

subsection \<open>Release: guard and outcome\<close>

text \<open>
  C2, as amended. For a booking that has an escrow, \<^verbatim>\<open>releaseFunds\<close> throws when the
  escrow's state is none of held, pending and disputed. When the guard passes the call
  returns, its success flag is the payout's, and the escrow of the booking ends in
  \<^verbatim>\<open>released\<close> if the payout succeeded and in \<^verbatim>\<open>disputed\<close> otherwise, so never in
  \<^verbatim>\<open>held\<close>. If the reference of the payout is not yet in the ledger, exactly one
  Transaction is appended: a \<^verbatim>\<open>release\<close> for this booking under that reference, with
  status \<^verbatim>\<open>success\<close> or \<^verbatim>\<open>failed\<close> as the payout went. If the reference is in the
  ledger already, the ledger stays as it is.
\<close>

theorem releaseFunds_guard_and_outcome:
  assumes "findBookingById bookingId db = Some booking"
      and "findEscrowByBooking (b_id booking) db = Some escrow"
  shows "(e_state escrow \<notin> {''held'', ''pending'', ''disputed''} \<longrightarrow>
            releaseFunds bookingId initiatedBy note localRef newTxId payoutResult db
              = Inl (NotReleasable (e_state escrow)))
       \<and> (e_state escrow \<in> {''held'', ''pending'', ''disputed''} \<longrightarrow>
            (\<exists>reply db'.
               releaseFunds bookingId initiatedBy note localRef newTxId payoutResult db = Inr (reply, db')
             \<and> r_success reply = payout_ok payoutResult
             \<and> map_option e_state (findEscrowByBooking (b_id booking) db')
                 = Some (if payout_ok payoutResult then ''released'' else ''disputed'')
             \<and> map_option e_state (findEscrowByBooking (b_id booking) db') \<noteq> Some ''held''
             \<and> (findTransactionByReference (r_reference reply) db = None \<longrightarrow>
                  (\<exists>tx. transactions db' = transactions db @ [tx]
                      \<and> t_type tx = ''release'' \<and> t_bookingId tx = b_id booking
                      \<and> t_reference tx = r_reference reply
                      \<and> t_status tx = (if payout_ok payoutResult then ''success'' else ''failed'')))
             \<and> (r_reference reply \<noteq> [] \<and> findTransactionByReference (r_reference reply) db \<noteq> None
                  \<longrightarrow> transactions db' = transactions db)))"
proof (intro conjI impI)
  assume "e_state escrow \<notin> {''held'', ''pending'', ''disputed''}"
  then show "releaseFunds bookingId initiatedBy note localRef newTxId payoutResult db
              = Inl (NotReleasable (e_state escrow))"
    using assms by (simp add: releaseFunds_def)
next
  assume g: "e_state escrow \<in> {''held'', ''pending'', ''disputed''}"
  define ok where "ok = payout_ok payoutResult"
  define reference where "reference = orStr (payout_ref payoutResult) localRef"
  define args where "args =
     \<lparr>t_id = newTxId, t_bookingId = b_id booking,
      t_amount = Some (orNum (e_amount escrow) (orNum (b_escrowAmount booking) (b_totalAmount booking))),
      t_type = ''release'', t_status = (if ok then ''success'' else ''failed''),
      t_paymentGateway = orStr (e_paymentGateway escrow) (orStr (b_paymentGateway booking) ''paystack''),
      t_reference = reference, t_note = orStr note ''release''\<rparr>"
  define escrow' where "escrow' =
     escrow\<lparr>e_state := (if ok then ''released'' else ''disputed''), e_initiatedBy := initiatedBy\<rparr>"
  define booking' where "booking' =
     booking\<lparr>b_paymentStatus := (if ok then ''released'' else b_paymentStatus booking),
             b_status := (if ok then ''completed'' else b_status booking)\<rparr>"
  define db1 where "db1 = snd (recordTransaction args db)"
  define db' where "db' = saveBooking booking' (saveEscrow escrow' db1)"
  define reply where "reply = \<lparr>r_success = ok, r_reference = reference\<rparr>"
  have run: "releaseFunds bookingId initiatedBy note localRef newTxId payoutResult db = Inr (reply, db')"
    using releaseFunds_unfold [OF assms g, of initiatedBy "note" localRef newTxId payoutResult]
    by (simp add: reply_def db'_def db1_def args_def escrow'_def booking'_def ok_def reference_def)
  have e1: "escrows db1 = escrows db"
    by (simp add: db1_def escrows_recordTransaction)
  have bk: "e_bookingId escrow = b_id booking"
    using assms(2) find_Some_pred [of "\<lambda>e. e_bookingId e = b_id booking" "escrows db" escrow]
    by (simp add: findEscrowByBooking_def)
  have ids: "e_id escrow' = e_id escrow" "e_bookingId escrow' = b_id booking"
    using bk by (simp_all add: escrow'_def)
  have "find (\<lambda>x. e_bookingId x = b_id booking)
          (map (\<lambda>x. if e_id x = e_id escrow' then escrow' else x) (escrows db)) = Some escrow'"
    using assms(2) ids
    by (intro find_escrow_by_booking_after_save [of _ _ escrow])
       (simp_all add: findEscrowByBooking_def)
  then have fe: "findEscrowByBooking (b_id booking) db' = Some escrow'"
    using e1 by (simp add: db'_def findEscrowByBooking_def saveBooking_def saveEscrow_def)
  have st: "map_option e_state (findEscrowByBooking (b_id booking) db')
              = Some (if ok then ''released'' else ''disputed'')"
    using fe by (simp add: escrow'_def)
  have nh: "map_option e_state (findEscrowByBooking (b_id booking) db') \<noteq> Some ''held''"
    using fe by (simp add: escrow'_def)
  have tr: "transactions db' = transactions db1"
    by (simp add: db'_def transactions_saveBooking transactions_saveEscrow)
  have fresh: "findTransactionByReference (r_reference reply) db = None \<longrightarrow>
          (\<exists>tx. transactions db' = transactions db @ [tx]
              \<and> t_type tx = ''release'' \<and> t_bookingId tx = b_id booking
              \<and> t_reference tx = r_reference reply
              \<and> t_status tx = (if ok then ''success'' else ''failed''))"
  proof
    assume "findTransactionByReference (r_reference reply) db = None"
    then have "recordTransaction args db = (args, insertTransaction args db)"
      by (intro recordTransaction_fresh) (simp add: reply_def args_def)
    then have "transactions db' = transactions db @ [args]"
      using tr by (simp add: db1_def insertTransaction_def)
    then show "\<exists>tx. transactions db' = transactions db @ [tx]
              \<and> t_type tx = ''release'' \<and> t_bookingId tx = b_id booking
              \<and> t_reference tx = r_reference reply
              \<and> t_status tx = (if ok then ''success'' else ''failed'')"
      by (intro exI [of _ args]) (simp add: args_def reply_def)
  qed
  have clash: "r_reference reply \<noteq> [] \<and> findTransactionByReference (r_reference reply) db \<noteq> None
                  \<longrightarrow> transactions db' = transactions db"
  proof
    assume c: "r_reference reply \<noteq> [] \<and> findTransactionByReference (r_reference reply) db \<noteq> None"
    then obtain t where "findTransactionByReference (t_reference args) db = Some t"
      by (auto simp add: reply_def args_def)
    then have "recordTransaction args db = (t, db)"
      using c by (intro recordTransaction_existing) (simp_all add: reply_def args_def)
    then show "transactions db' = transactions db"
      using tr by (simp add: db1_def)
  qed
  show "\<exists>reply db'.
               releaseFunds bookingId initiatedBy note localRef newTxId payoutResult db = Inr (reply, db')
             \<and> r_success reply = payout_ok payoutResult
             \<and> map_option e_state (findEscrowByBooking (b_id booking) db')
                 = Some (if payout_ok payoutResult then ''released'' else ''disputed'')
             \<and> map_option e_state (findEscrowByBooking (b_id booking) db') \<noteq> Some ''held''
             \<and> (findTransactionByReference (r_reference reply) db = None \<longrightarrow>
                  (\<exists>tx. transactions db' = transactions db @ [tx]
                      \<and> t_type tx = ''release'' \<and> t_bookingId tx = b_id booking
                      \<and> t_reference tx = r_reference reply
                      \<and> t_status tx = (if payout_ok payoutResult then ''success'' else ''failed'')))
             \<and> (r_reference reply \<noteq> [] \<and> findTransactionByReference (r_reference reply) db \<noteq> None
                  \<longrightarrow> transactions db' = transactions db)"
    using run st nh fresh clash unfolding ok_def [symmetric]
    by (intro exI [of _ reply] exI [of _ db'] conjI) (simp_all add: reply_def)
qed

theorem releaseFunds_guard_and_outcome_witness:
  "releaseFunds ''B1'' ''A1'' [] ''REL-1-7'' ''T2''
       (Some \<lparr>p_success = False, p_reference = []\<rparr>) demo_held
     = Inr (\<lparr>r_success = False, r_reference = ''REL-1-7''\<rparr>,
            demo_held\<lparr>escrows := [demo_held_escrow\<lparr>e_state := ''disputed'', e_initiatedBy := ''A1''\<rparr>],
                      transactions := [demo_pending_tx,
                         \<lparr>t_id = ''T2'', t_bookingId = ''B1'', t_amount = Some 5000,
                          t_type = ''release'', t_status = ''failed'',
                          t_paymentGateway = ''paystack'', t_reference = ''REL-1-7'',
                          t_note = ''release''\<rparr>]\<rparr>)
   \<and> releaseFunds ''B1'' ''A1'' [] ''REL-1-7'' ''T2''
       (Some \<lparr>p_success = True, p_reference = ''REL-PS-1''\<rparr>)
       (demo_held\<lparr>escrows := [demo_held_escrow\<lparr>e_state := ''refunded''\<rparr>]\<rparr>)
     = Inl (NotReleasable ''refunded'')"
  using releaseFunds_guard_and_outcome [of "''B1''" demo_held demo_held_booking demo_held_escrow
      "''A1''" "[]" "''REL-1-7''" "''T2''" "Some \<lparr>p_success = False, p_reference = []\<rparr>"]
    releaseFunds_guard_and_outcome [of "''B1''"
      "demo_held\<lparr>escrows := [demo_held_escrow\<lparr>e_state := ''refunded''\<rparr>]\<rparr>" demo_held_booking
      "demo_held_escrow\<lparr>e_state := ''refunded''\<rparr>"
      "''A1''" "[]" "''REL-1-7''" "''T2''" "Some \<lparr>p_success = True, p_reference = ''REL-PS-1''\<rparr>"]
  by (simp add: model_defs demo_defs)

text \<open>
  C2 as stated fails where the payout's reference is already in the ledger. The escrow of
  \<open>B1\<close> is held, the guard passes and the payout succeeds; the escrow becomes released,
  but \<^verbatim>\<open>recordTransaction\<close> finds the reference \<open>REL-PS-1\<close> (the release of booking
  \<open>B0\<close>) and writes nothing: the ledger is as before and holds no Transaction for \<open>B1\<close>.
\<close>

theorem releaseFunds_reference_clash_counterexample:
  "releaseFunds ''B1'' ''A1'' [] ''REL-1-7'' ''T2''
       (Some \<lparr>p_success = True, p_reference = ''REL-PS-1''\<rparr>) clash_store
     = Inr (\<lparr>r_success = True, r_reference = ''REL-PS-1''\<rparr>, clash_store_after)
   \<and> map e_state (escrows clash_store) = [''released'', ''held'']
   \<and> map e_state (escrows clash_store_after) = [''released'', ''released'']
   \<and> transactions clash_store_after = transactions clash_store
   \<and> map t_bookingId (transactions clash_store_after) = [''B0'']"
  by code_simp

subsection \<open>Reconciliation: a successful payment without escrow\<close>

text \<open>
  C5, evaluated. The ledger holds one Transaction of type \<^verbatim>\<open>escrow\<close> with status
  \<^verbatim>\<open>success\<close> for the existing booking \<open>B1\<close>, and no Escrow document exists. The
  scheduled run checks that Transaction and reports no issue at all: the scan looks for the type
  \<^verbatim>\<open>payment\<close>, which no Transaction of the ledger carries.
\<close>

theorem reconcile_misses_escrow_payment:
  "map t_type (transactions drift_store) = [''escrow'']
   \<and> map t_status (transactions drift_store) = [''success'']
   \<and> map b_id (bookings drift_store) = map t_bookingId (transactions drift_store)
   \<and> escrows drift_store = []
   \<and> reconcileTransactions 5000 RunByNull drift_store
       = Inr \<lparr>rp_runBy = None, rp_totalTransactionsChecked = 1, rp_totalEscrowsChecked = 0,
              rp_totalIssues = 0, rp_issues = []\<rparr>"
  by (simp add: drift_store_def paid_tx_def demo_pending_tx_def demo_held_booking_def
      demo_booking_def reconcileTransactions_def castRunBy_def checkTransaction_def
      findBookingById_def MAX_ISSUES_def)

subsection \<open>Reconciliation: the cap on issues\<close>

lemma checkTransaction_length: "length (checkTransaction db tx) \<le> 2"
  by (simp add: checkTransaction_def split: option.splits)

lemma checkEscrow_length: "length (checkEscrow db esc) \<le> 1"
  by (simp add: checkEscrow_def split: option.splits)

lemma scanTransactions_bound:
  "length issues \<le> MAX_ISSUES + 1
     \<Longrightarrow> length (fst (scanTransactions limit db txs issues n)) \<le> MAX_ISSUES + 1"
proof (induction txs arbitrary: issues n)
  case Nil
  then show ?case by simp
next
  case (Cons tx rest)
  show ?case
  proof (cases "int n \<ge> limit \<or> length issues \<ge> MAX_ISSUES")
    case True
    then show ?thesis using Cons.prems by auto
  next
    case False
    then have "length (issues @ checkTransaction db tx) \<le> MAX_ISSUES + 1"
      using checkTransaction_length [of db tx] by simp
    then show ?thesis using False Cons.IH by simp
  qed
qed

lemma scanEscrows_bound:
  "length issues \<le> MAX_ISSUES + 1
     \<Longrightarrow> length (fst (scanEscrows limit db es issues n)) \<le> MAX_ISSUES + 1"
proof (induction es arbitrary: issues n)
  case Nil
  then show ?case by simp
next
  case (Cons esc rest)
  show ?case
  proof (cases "int n \<ge> limit \<or> length issues \<ge> MAX_ISSUES")
    case True
    then show ?thesis using Cons.prems by auto
  next
    case False
    then have "length (issues @ checkEscrow db esc) \<le> MAX_ISSUES + 1"
      using checkEscrow_length [of db esc] by simp
    then show ?thesis using False Cons.IH by simp
  qed
qed

text \<open>The transaction scan on a ledger whose every entry is one issue, below the limit.\<close>

lemma scanTransactions_one_each:
  "\<forall>tx \<in> set txs. length (checkTransaction db tx) = 1 \<Longrightarrow> length issues \<le> MAX_ISSUES
     \<Longrightarrow> int (n + length txs) \<le> limit
     \<Longrightarrow> scanTransactions limit db txs issues n
         = (issues @ concat (map (checkTransaction db) (take (MAX_ISSUES - length issues) txs)),
            n + min (length txs) (MAX_ISSUES - length issues))"
proof (induction txs arbitrary: issues n)
  case Nil
  then show ?case by simp
next
  case (Cons tx rest)
  have one: "length (checkTransaction db tx) = 1"
    using Cons.prems(1) by simp
  show ?case
  proof (cases "length issues \<ge> MAX_ISSUES")
    case True
    then show ?thesis using Cons.prems by simp
  next
    case False
    then obtain k where k: "MAX_ISSUES - length issues = Suc k"
      by (cases "MAX_ISSUES - length issues") simp_all
    have len: "length (issues @ checkTransaction db tx) = Suc (length issues)"
      using one by simp
    then have k': "MAX_ISSUES - length (issues @ checkTransaction db tx) = k"
      using k by simp
    have "scanTransactions limit db (tx # rest) issues n
            = scanTransactions limit db rest (issues @ checkTransaction db tx) (Suc n)"
      using False Cons.prems by simp
    also have "\<dots> = ((issues @ checkTransaction db tx)
                       @ concat (map (checkTransaction db) (take k rest)),
                     Suc n + min (length rest) k)"
      using Cons.IH [of "issues @ checkTransaction db tx" "Suc n"] Cons.prems False len k'
      by simp
    finally show ?thesis using k by simp
  qed
qed

lemma length_concat_one_each:
  "\<forall>x \<in> set xs. length (f x) = 1 \<Longrightarrow> length (concat (map f xs)) = length xs"
  by (induction xs) simp_all

text \<open>
  C8, as amended. A report stores at most 500 issues. Both scans stop as soon as 500
  issues have been collected, and one pass adds at most two, so the total the report
  states never exceeds 501: issues beyond the cap are neither stored nor counted. Every
  run whose \<^verbatim>\<open>runBy\<close> is null or a user's identifier produces a report.
\<close>

theorem report_issue_cap:
  "(runBy \<noteq> RunByDefault \<longrightarrow> (\<exists>r. reconcileTransactions limit runBy db = Inr r))
   \<and> (reconcileTransactions limit runBy db = Inr r
        \<longrightarrow> length (rp_issues r) \<le> 500 \<and> rp_totalIssues r \<le> 501)"
proof -
  obtain issues1 txChecked where s1:
    "scanTransactions limit db (transactions db) [] 0 = (issues1, txChecked)"
    by (cases "scanTransactions limit db (transactions db) [] 0") auto
  obtain issues escrowsChecked where s2:
    "scanEscrows limit db (escrows db) issues1 0 = (issues, escrowsChecked)"
    by (cases "scanEscrows limit db (escrows db) issues1 0") auto
  have "length issues1 \<le> MAX_ISSUES + 1"
    using scanTransactions_bound [of "[]" limit db "transactions db" 0] s1 by simp
  then have "length issues \<le> MAX_ISSUES + 1"
    using scanEscrows_bound [of issues1 limit db "escrows db" 0] s2 by simp
  then have bound: "reconcileTransactions limit runBy db = Inr r
        \<longrightarrow> length (rp_issues r) \<le> 500 \<and> rp_totalIssues r \<le> 501"
    using s1 s2
    by (auto simp add: reconcileTransactions_def MAX_ISSUES_def split: sum.splits)
  have "runBy \<noteq> RunByDefault \<longrightarrow> (\<exists>r. reconcileTransactions limit runBy db = Inr r)"
    using s1 s2 by (cases runBy) (simp_all add: reconcileTransactions_def castRunBy_def)
  then show ?thesis using bound by simp
qed

theorem report_issue_cap_witness:
  "reconcileTransactions 5000 RunByNull drift_store
     = Inr \<lparr>rp_runBy = None, rp_totalTransactionsChecked = 1, rp_totalEscrowsChecked = 0,
            rp_totalIssues = 0, rp_issues = []\<rparr>
   \<and> length (rp_issues \<lparr>rp_runBy = None, rp_totalTransactionsChecked = 1,
                         rp_totalEscrowsChecked = 0, rp_totalIssues = 0, rp_issues = []\<rparr>) \<le> 500"
  using report_issue_cap [of RunByNull 5000 drift_store
      "\<lparr>rp_runBy = None, rp_totalTransactionsChecked = 1, rp_totalEscrowsChecked = 0,
        rp_totalIssues = 0, rp_issues = []\<rparr>"]
  by (simp add: drift_store_def paid_tx_def demo_pending_tx_def demo_held_booking_def
      demo_booking_def reconcileTransactions_def castRunBy_def checkTransaction_def
      findBookingById_def MAX_ISSUES_def)

text \<open>
  C8 as stated fails on a ledger with 502 entries whose booking is missing. Each of them
  is an issue (\<^verbatim>\<open>txn_booking_missing\<close>), the limit of 5000 is not reached, and yet the
  scan stops after 500 entries: the report states 500 issues and 500 checked
  Transactions, not 502, and the issues it stores are those of the first 500 entries.
\<close>

theorem report_total_stops_at_cap_counterexample:
  "length (transactions orphan_store) = 502
   \<and> distinct (map t_reference (transactions orphan_store))
   \<and> map i_type (checkTransaction orphan_store (orphan_tx 500)) = [''txn_booking_missing'']
   \<and> map i_type (checkTransaction orphan_store (orphan_tx 501)) = [''txn_booking_missing'']
   \<and> reconcileTransactions 5000 RunByNull orphan_store
       = Inr \<lparr>rp_runBy = None, rp_totalTransactionsChecked = 500, rp_totalEscrowsChecked = 0,
              rp_totalIssues = 500,
              rp_issues = concat (map (checkTransaction orphan_store)
                                    (take 500 (transactions orphan_store)))\<rparr>
   \<and> length (concat (map (checkTransaction orphan_store)
                (take 500 (transactions orphan_store)))) = 500"
proof -
  have one: "checkTransaction orphan_store (orphan_tx n)
              = [\<lparr>i_type = ''txn_booking_missing'', i_severity = ''high'',
                  i_transactionId = t_id (orphan_tx n), i_escrowId = [], i_bookingId = ''B9''\<rparr>]"
    for n
    by (simp add: checkTransaction_def orphan_tx_def orphan_store_def findBookingById_def)
  have tr: "transactions orphan_store = map orphan_tx [0..<502]"
    by (simp add: orphan_store_def)
  have each: "\<forall>tx \<in> set (map orphan_tx [0..<502]). length (checkTransaction orphan_store tx) = 1"
    using one by auto
  have each': "\<forall>tx \<in> set (take 500 (map orphan_tx [0..<502])).
                 length (checkTransaction orphan_store tx) = 1"
    using each by (meson in_set_takeD)
  have len: "length (concat (map (checkTransaction orphan_store)
                (take 500 (map orphan_tx [0..<502])))) = 500"
    using length_concat_one_each [OF each'] by simp
  have inj: "inj_on (\<lambda>n. ''R'' @ replicate n (CHR ''i'')) (set [0..<502])"
    by (auto simp add: inj_on_def dest: arg_cong [where f = length])
  have dist: "distinct (map t_reference (map orphan_tx [0..<502]))"
    using inj by (simp add: distinct_map orphan_tx_def comp_def)
  have scan: "scanTransactions 5000 orphan_store (map orphan_tx [0..<502]) [] 0
          = (concat (map (checkTransaction orphan_store) (take 500 (map orphan_tx [0..<502]))),
             500)"
    using scanTransactions_one_each [OF each, of "[]" 0 5000]
    by (simp add: MAX_ISSUES_def)
  have run: "reconcileTransactions 5000 RunByNull orphan_store
       = Inr \<lparr>rp_runBy = None, rp_totalTransactionsChecked = 500, rp_totalEscrowsChecked = 0,
              rp_totalIssues = 500,
              rp_issues = concat (map (checkTransaction orphan_store)
                                    (take 500 (map orphan_tx [0..<502])))\<rparr>"
    using scan len
    by (simp add: reconcileTransactions_def castRunBy_def tr MAX_ISSUES_def)
       (simp add: orphan_store_def)
  show ?thesis
    using run len dist one [of 500] one [of 501] by (simp add: tr)
qed

lemmas settle_defs =
  settleEscrow_def createTransaction_def completedAtOr_def gracePeriodMs_def
  createDispute_def resolveDispute_def findDisputeById_def saveDispute_def
  escrow_status_def escrow_amountHeld_def booking_completedAt_def validTransaction_def
  validDispute_def transactionTypes_def transactionStatuses_def disputeStatuses_def
  disputeResolutions_def bookingStatuses_def store_after_def

lemmas settle_demo_defs =
  reviewed_booking_def reviewed_store_def one_review_store_def pro_missing_store_def
  payout_tx_def payout_taken_store_def released_reviewed_store_def paid_tx_def
  demo_dispute_def disputed_store_def

subsection \<open>What settlement writes\<close>

text \<open>
  The payout Transaction that \<^verbatim>\<open>settleEscrow\<close> submits has no amount, so the insert is
  rejected; the writes before it change no stored document. Whatever the outcome, the
  store after \<^verbatim>\<open>settleEscrow\<close> is the store before it.
\<close>

lemma payout_is_rejected:
  "createTransaction
     \<lparr>t_id = newTxId, t_bookingId = bookingId, t_amount = escrow_amountHeld escrow,
      t_type = ''payout'', t_status = ''success'', t_paymentGateway = [],
      t_reference = reference, t_note = []\<rparr> db = Inl ValidationError"
  by (simp add: createTransaction_def validTransaction_def escrow_amountHeld_def)

lemma settleEscrow_writes_nothing: "snd (settleEscrow now newTxId bookingId db) = db"
  by (simp add: settleEscrow_def payout_is_rejected Let_def split: option.splits)

lemma settleEscrow_release_unfold:
  assumes "findBookingById bookingId db = Some booking"
      and "findEscrowByBooking bookingId db = Some escrow"
      and "now - completedAtOr now booking > gracePeriodMs
           \<or> (b_customerReviewed booking \<and> b_proReviewed booking)"
  shows "settleEscrow now newTxId bookingId db
           = (Inl (if b_proId booking \<in> set (users db) then ValidationError else ProNotFound), db)"
  using assms
  by (auto simp add: settleEscrow_def payout_is_rejected escrow_status_def Let_def)

subsection \<open>Settlement: failure in the middle of the write sequence\<close>

text \<open>
  C7. Whatever \<^verbatim>\<open>settleEscrow\<close> is called with, the store it leaves is the store it
  found: no escrow is marked released, no Transaction is added and no booking is
  changed. And whenever the call gets as far as the release, for a booking with an
  escrow once the grace period is over or both parties have reviewed, it throws: the
  professional's user record is missing, or the insert of the payout Transaction, the
  first write that would change a stored document, is rejected. The caller receives the
  error.
\<close>

theorem settleEscrow_failure_keeps_no_partial_state:
  "snd (settleEscrow now newTxId bookingId db) = db
   \<and> (findBookingById bookingId db = Some booking
       \<and> findEscrowByBooking bookingId db = Some escrow
       \<and> (now - completedAtOr now booking > gracePeriodMs
           \<or> (b_customerReviewed booking \<and> b_proReviewed booking))
      \<longrightarrow> (\<exists>err. settleEscrow now newTxId bookingId db = (Inl err, db)))"
  using settleEscrow_release_unfold [of bookingId db booking escrow now newTxId]
  by (simp add: settleEscrow_writes_nothing)

theorem settleEscrow_failure_keeps_no_partial_state_witness:
  "settleEscrow 1000 ''T2'' ''B1'' pro_missing_store = (Inl ProNotFound, pro_missing_store)
   \<and> settleEscrow 1000 ''T2'' ''B1'' payout_taken_store = (Inl ValidationError, payout_taken_store)
   \<and> map e_state (escrows pro_missing_store) = [''held'']
   \<and> map b_paymentReleased (bookings pro_missing_store) = [False]
   \<and> map t_type (transactions pro_missing_store) = [''escrow'']"
  using settleEscrow_failure_keeps_no_partial_state [of 1000 "''T2''" "''B1''" pro_missing_store
      reviewed_booking demo_held_escrow]
    settleEscrow_failure_keeps_no_partial_state [of 1000 "''T2''" "''B1''" payout_taken_store
      reviewed_booking demo_held_escrow]
  by (simp add: settle_defs settle_demo_defs model_defs demo_defs)

subsection \<open>Settlement policy\<close>

text \<open>
  C4, what the code does. For a booking with an escrow, \<^verbatim>\<open>settleEscrow\<close> returns null
  and writes nothing as long as the grace period has not run out (measured from the
  booking's last write, since \<^verbatim>\<open>completedAt\<close> is no property of a Booking) and not both
  parties have reviewed. In every other case, where the claim has the release performed,
  the call throws and the store is left as it was: the payout Transaction is rejected for
  its missing amount, or the professional's user record is missing. This includes the
  escrow that is released already, for which the claim has a no-op that returns null.
\<close>

theorem settleEscrow_release_is_rejected:
  assumes "findBookingById bookingId db = Some booking"
      and "findEscrowByBooking bookingId db = Some escrow"
  shows "(now - completedAtOr now booking > gracePeriodMs
            \<or> (b_customerReviewed booking \<and> b_proReviewed booking)
          \<longrightarrow> settleEscrow now newTxId bookingId db
                = (Inl (if b_proId booking \<in> set (users db) then ValidationError
                        else ProNotFound), db))
       \<and> (now - completedAtOr now booking \<le> gracePeriodMs
            \<and> \<not> (b_customerReviewed booking \<and> b_proReviewed booking)
          \<longrightarrow> settleEscrow now newTxId bookingId db = (Inr None, db))"
proof (intro conjI impI)
  assume "now - completedAtOr now booking > gracePeriodMs
            \<or> (b_customerReviewed booking \<and> b_proReviewed booking)"
  then show "settleEscrow now newTxId bookingId db
                = (Inl (if b_proId booking \<in> set (users db) then ValidationError
                        else ProNotFound), db)"
    using settleEscrow_release_unfold [OF assms, of now newTxId] by simp
next
  assume "now - completedAtOr now booking \<le> gracePeriodMs
            \<and> \<not> (b_customerReviewed booking \<and> b_proReviewed booking)"
  then show "settleEscrow now newTxId bookingId db = (Inr None, db)"
    using assms by (auto simp add: settleEscrow_def escrow_status_def Let_def)
qed

theorem settleEscrow_release_is_rejected_witness:
  "settleEscrow 1000 ''T2'' ''B1'' reviewed_store = (Inl ValidationError, reviewed_store)
   \<and> settleEscrow 259200001 ''T2'' ''B1'' one_review_store
       = (Inl ValidationError, one_review_store)
   \<and> settleEscrow 259200000 ''T2'' ''B1'' one_review_store = (Inr None, one_review_store)
   \<and> settleEscrow 1000 ''T2'' ''B1'' released_reviewed_store
       = (Inl ValidationError, released_reviewed_store)
   \<and> map e_state (escrows reviewed_store) = [''held'']
   \<and> map t_type (transactions reviewed_store) = [''escrow'']
   \<and> map b_paymentReleased (bookings reviewed_store) = [False]
   \<and> map e_state (escrows released_reviewed_store) = [''released'']"
  using settleEscrow_release_is_rejected [of "''B1''" reviewed_store reviewed_booking
      demo_held_escrow 1000 "''T2''"]
    settleEscrow_release_is_rejected [of "''B1''" one_review_store
      "reviewed_booking\<lparr>b_proReviewed := False\<rparr>" demo_held_escrow 259200001 "''T2''"]
    settleEscrow_release_is_rejected [of "''B1''" one_review_store
      "reviewed_booking\<lparr>b_proReviewed := False\<rparr>" demo_held_escrow 259200000 "''T2''"]
    settleEscrow_release_is_rejected [of "''B1''" released_reviewed_store reviewed_booking
      "demo_held_escrow\<lparr>e_state := ''released''\<rparr>" 1000 "''T2''"]
  by (simp add: settle_defs settle_demo_defs model_defs demo_defs)

subsection \<open>Opening a dispute\<close>






subsection \<open>Resolving a dispute\<close>




lemma resolveDispute_never_returns:
  "\<exists>err. fst (resolveDispute disputeId resolvedBy resolution winnerId now trustOk db) = Inl err"
  by (simp add: resolveDispute_def Let_def bookingStatuses_def split: option.splits)




subsection \<open>Escrow states under release, refund and settlement\<close>

lemma find_by_id_after_replace:
  "e_id e' = j \<Longrightarrow>
   find (\<lambda>x. e_id x = i) (map (\<lambda>x. if e_id x = j then e' else x) xs)
     = (if i = j then (if j \<in> e_id ` set xs then Some e' else None)
        else find (\<lambda>x. e_id x = i) xs)"
  by (induction xs) auto

lemma find_by_id_distinct:
  "distinct (map e_id xs) \<Longrightarrow> x \<in> set xs \<Longrightarrow> find (\<lambda>e. e_id e = e_id x) xs = Some x"
  by (induction xs) (auto simp add: image_iff)

lemma state_after_saveEscrow:
  assumes "distinct (map e_id (escrows db))" and "e \<in> set (escrows db)" and "e_id e' = e_id e"
  shows "escrowStateById i (saveEscrow e' db)
           = (if i = e_id e then Some (e_state e') else escrowStateById i db)"
  using assms find_by_id_after_replace [of e' "e_id e" i "escrows db"]
  by (auto simp add: escrowStateById_def saveEscrow_def)

lemma state_before_save:
  assumes "distinct (map e_id (escrows db))" and "e \<in> set (escrows db)"
  shows "escrowStateById (e_id e) db = Some (e_state e)"
  using assms find_by_id_distinct [of "escrows db" e] by (simp add: escrowStateById_def)

lemma ids_saveEscrow: "map e_id (escrows (saveEscrow e' db)) = map e_id (escrows db)"
  by (simp add: saveEscrow_def)

lemma escrows_saveBooking: "escrows (saveBooking b db) = escrows db"
  by (simp add: saveBooking_def)

lemma escrows_insertTransaction: "escrows (insertTransaction t db) = escrows db"
  by (simp add: insertTransaction_def)

lemma escrows_saveEscrow_cong:
  "escrows db1 = escrows db \<Longrightarrow> escrows (saveEscrow e db1) = escrows (saveEscrow e db)"
  by (simp add: saveEscrow_def)

lemma escrows_save_after_record:
  "escrows (saveEscrow e (snd (recordTransaction a db))) = escrows (saveEscrow e db)"
  by (simp add: saveEscrow_def escrows_recordTransaction)

text \<open>What one request does to the Escrow collection: nothing, or one save of a found document.\<close>

lemma releaseFunds_escrows:
  assumes "releaseFunds bookingId initiatedBy nt localRef newTxId payoutResult db = Inr (reply, db')"
  shows "\<exists>e e'. e \<in> set (escrows db) \<and> e_id e' = e_id e
           \<and> e_state e \<in> {''held'', ''pending'', ''disputed''}
           \<and> e_state e' \<in> {''released'', ''disputed''}
           \<and> escrows db' = escrows (saveEscrow e' db)"
proof -
  obtain booking where b: "findBookingById bookingId db = Some booking"
    using assms by (auto simp add: releaseFunds_def split: option.splits)
  obtain escrow where e: "findEscrowByBooking (b_id booking) db = Some escrow"
    using assms b by (auto simp add: releaseFunds_def split: option.splits)
  have g: "e_state escrow \<in> {''held'', ''pending'', ''disputed''}"
    using assms b e by (auto simp add: releaseFunds_def split: if_splits)
  define e' where "e' = escrow\<lparr>e_state := (if payout_ok payoutResult then ''released'' else ''disputed''),
                               e_initiatedBy := initiatedBy\<rparr>"
  have "escrows db' = escrows (saveEscrow e' db)"
    using assms releaseFunds_unfold [OF b e g, of initiatedBy nt localRef newTxId payoutResult]
    by (auto simp add: e'_def escrows_saveBooking escrows_save_after_record)
  moreover have "escrow \<in> set (escrows db)"
    using e find_Some_mem [of _ "escrows db" escrow] by (simp add: findEscrowByBooking_def)
  moreover have "e_id e' = e_id escrow" "e_state e' \<in> {''released'', ''disputed''}"
    by (simp_all add: e'_def)
  ultimately show ?thesis using g by blast
qed

lemma refundFunds_unfold:
  assumes "findBookingById bookingId db = Some booking"
      and "findEscrowByBooking (b_id booking) db = Some escrow"
      and "e_state escrow \<in> {''held'', ''pending'', ''disputed''}"
  shows "refundFunds bookingId initiatedBy reason localRef newTxId refundResult db =
     Inr (\<lparr>r_success = payout_ok refundResult, r_reference = orStr (payout_ref refundResult) localRef\<rparr>,
          saveBooking
            (booking\<lparr>b_paymentStatus := (if payout_ok refundResult then ''refunded'' else b_paymentStatus booking),
                     b_status := (if payout_ok refundResult then ''cancelled'' else b_status booking)\<rparr>)
            (saveEscrow
               (escrow\<lparr>e_state := (if payout_ok refundResult then ''refunded'' else ''disputed''),
                       e_initiatedBy := initiatedBy\<rparr>)
               (snd (recordTransaction
                  \<lparr>t_id = newTxId, t_bookingId = b_id booking,
                   t_amount = Some (orNum (e_amount escrow) (orNum (b_escrowAmount booking) (b_totalAmount booking))),
                   t_type = ''refund'',
                   t_status = (if payout_ok refundResult then ''success'' else ''failed''),
                   t_paymentGateway = orStr (e_paymentGateway escrow) (orStr (b_paymentGateway booking) ''paystack''),
                   t_reference = orStr (payout_ref refundResult) localRef,
                   t_note = orStr reason ''refund''\<rparr> db))))"
  using assms by (auto simp add: refundFunds_def Let_def split: prod.splits)

lemma refundFunds_escrows:
  assumes "refundFunds bookingId initiatedBy reason localRef newTxId refundResult db = Inr (reply, db')"
  shows "\<exists>e e'. e \<in> set (escrows db) \<and> e_id e' = e_id e
           \<and> e_state e \<in> {''held'', ''pending'', ''disputed''}
           \<and> e_state e' \<in> {''refunded'', ''disputed''}
           \<and> escrows db' = escrows (saveEscrow e' db)"
proof -
  obtain booking where b: "findBookingById bookingId db = Some booking"
    using assms by (auto simp add: refundFunds_def split: option.splits)
  obtain escrow where e: "findEscrowByBooking (b_id booking) db = Some escrow"
    using assms b by (auto simp add: refundFunds_def split: option.splits)
  have g: "e_state escrow \<in> {''held'', ''pending'', ''disputed''}"
    using assms b e by (auto simp add: refundFunds_def split: if_splits)
  define e' where "e' = escrow\<lparr>e_state := (if payout_ok refundResult then ''refunded'' else ''disputed''),
                               e_initiatedBy := initiatedBy\<rparr>"
  have "escrows db' = escrows (saveEscrow e' db)"
    using assms refundFunds_unfold [OF b e g, of initiatedBy reason localRef newTxId refundResult]
    by (auto simp add: e'_def escrows_saveBooking escrows_save_after_record)
  moreover have "escrow \<in> set (escrows db)"
    using e find_Some_mem [of _ "escrows db" escrow] by (simp add: findEscrowByBooking_def)
  moreover have "e_id e' = e_id escrow" "e_state e' \<in> {''refunded'', ''disputed''}"
    by (simp_all add: e'_def)
  ultimately show ?thesis using g by blast
qed

lemma settleEscrow_escrows:
  "escrows (snd (settleEscrow now newTxId bookingId db)) = escrows db"
  by (simp add: settleEscrow_writes_nothing)

lemma apply_operation_escrows:
  "escrows (apply_operation op db) = escrows db
   \<or> (\<exists>e e'. e \<in> set (escrows db) \<and> e_id e' = e_id e
         \<and> (e_state e' = e_state e
            \<or> (e_state e \<in> {''held'', ''pending'', ''disputed''}
               \<and> e_state e' \<in> {''released'', ''refunded'', ''disputed''}))
         \<and> escrows (apply_operation op db) = escrows (saveEscrow e' db))"
proof (cases op)
  case (Release bookingId initiatedBy nt localRef newTxId payoutResult)
  show ?thesis
  proof (cases "releaseFunds bookingId initiatedBy nt localRef newTxId payoutResult db")
    case (Inl err)
    then show ?thesis using Release by simp
  next
    case (Inr p)
    obtain reply db' where p: "p = (reply, db')" by (cases p) auto
    have "apply_operation op db = db'" using Release Inr p by simp
    then show ?thesis
      using releaseFunds_escrows [of bookingId initiatedBy nt localRef newTxId payoutResult db reply db']
        Inr p by auto
  qed
next
  case (Refund bookingId initiatedBy reason localRef newTxId refundResult)
  show ?thesis
  proof (cases "refundFunds bookingId initiatedBy reason localRef newTxId refundResult db")
    case (Inl err)
    then show ?thesis using Refund by simp
  next
    case (Inr p)
    obtain reply db' where p: "p = (reply, db')" by (cases p) auto
    have "apply_operation op db = db'" using Refund Inr p by simp
    then show ?thesis
      using refundFunds_escrows [of bookingId initiatedBy reason localRef newTxId refundResult db reply db']
        Inr p by auto
  qed
next
  case (Settle now newTxId bookingId)
  then show ?thesis
    using settleEscrow_escrows [of now newTxId bookingId db] by simp
qed

lemma escrowStateById_cong:
  "escrows db1 = escrows db2 \<Longrightarrow> escrowStateById i db1 = escrowStateById i db2"
  by (simp add: escrowStateById_def)

lemma apply_operation_ids:
  "map e_id (escrows (apply_operation op db)) = map e_id (escrows db)"
  using apply_operation_escrows [of op db] ids_saveEscrow by (metis (no_types, lifting))

lemma apply_operation_state:
  assumes "distinct (map e_id (escrows db))" and "escrowStateById i db = Some s"
  shows "\<exists>s'. escrowStateById i (apply_operation op db) = Some s'
           \<and> (s' = s \<or> (s \<in> {''held'', ''pending'', ''disputed''}
                        \<and> s' \<in> {''released'', ''refunded'', ''disputed''}))"
proof -
  consider (same) "escrows (apply_operation op db) = escrows db"
    | (saved) e e' where "e \<in> set (escrows db)" "e_id e' = e_id e"
        "e_state e' = e_state e
           \<or> (e_state e \<in> {''held'', ''pending'', ''disputed''}
              \<and> e_state e' \<in> {''released'', ''refunded'', ''disputed''})"
        "escrows (apply_operation op db) = escrows (saveEscrow e' db)"
    using apply_operation_escrows [of op db] by blast
  then show ?thesis
  proof cases
    case same
    then show ?thesis
      using assms(2) escrowStateById_cong [of "apply_operation op db" db i] by simp
  next
    case saved
    have st: "escrowStateById i (apply_operation op db)
                = (if i = e_id e then Some (e_state e') else escrowStateById i db)"
      using state_after_saveEscrow [OF assms(1) saved(1) saved(2), of i]
        escrowStateById_cong [OF saved(4), of i] by simp
    show ?thesis
    proof (cases "i = e_id e")
      case True
      then have "s = e_state e"
        using state_before_save [OF assms(1) saved(1)] assms(2) by simp
      then show ?thesis using st True saved(3) by auto
    next
      case False
      then show ?thesis using st assms(2) by simp
    qed
  qed
qed

lemma run_ids: "map e_id (escrows (run ops db)) = map e_id (escrows db)"
  by (induction ops arbitrary: db) (simp_all add: apply_operation_ids)

lemma run_terminal:
  "distinct (map e_id (escrows db)) \<Longrightarrow> escrowStateById i db = Some s
     \<Longrightarrow> s \<in> {''released'', ''refunded'', ''cancelled''}
     \<Longrightarrow> escrowStateById i (run ops db) = Some s"
proof (induction ops arbitrary: db)
  case Nil
  then show ?case by simp
next
  case (Cons op ops)
  have "escrowStateById i (apply_operation op db) = Some s"
    using apply_operation_state [OF Cons.prems(1) Cons.prems(2), of op] Cons.prems(3) by auto
  moreover have "distinct (map e_id (escrows (apply_operation op db)))"
    using Cons.prems(1) by (simp add: apply_operation_ids)
  ultimately show ?case using Cons.IH Cons.prems(3) by simp
qed

text \<open>
  C3, as amended. Take a store whose escrows have distinct identifiers (as the documents
  of a collection have) and any sequence of release, refund and settlement requests. An escrow in state \<^verbatim>\<open>released\<close>,
  \<^verbatim>\<open>refunded\<close> or \<^verbatim>\<open>cancelled\<close> keeps that state through the whole sequence, and every
  change of state made by a request of the sequence leads from \<^verbatim>\<open>held\<close>, \<^verbatim>\<open>pending\<close> or
  \<^verbatim>\<open>disputed\<close> to \<^verbatim>\<open>released\<close>, \<^verbatim>\<open>refunded\<close> or \<^verbatim>\<open>disputed\<close>. Webhook ingestion and
  reconciliation are not among the requests: they write \<^verbatim>\<open>held\<close> or \<^verbatim>\<open>cancelled\<close> over
  other states.
\<close>

theorem terminal_states_stable:
  assumes "distinct (map e_id (escrows db))"
  shows "(escrowStateById i db = Some s \<and> s \<in> {''released'', ''refunded'', ''cancelled''}
            \<longrightarrow> escrowStateById i (run ops db) = Some s)
       \<and> (escrowStateById i (run ops db) = Some s1
            \<and> escrowStateById i (apply_operation op (run ops db)) = Some s2 \<and> s2 \<noteq> s1
            \<longrightarrow> s1 \<in> {''held'', ''pending'', ''disputed''}
              \<and> s2 \<in> {''released'', ''refunded'', ''disputed''})"
proof (intro conjI impI)
  assume "escrowStateById i db = Some s \<and> s \<in> {''released'', ''refunded'', ''cancelled''}"
  then show "escrowStateById i (run ops db) = Some s"
    using run_terminal [OF assms, of i s ops] by simp
next
  assume a: "escrowStateById i (run ops db) = Some s1
            \<and> escrowStateById i (apply_operation op (run ops db)) = Some s2 \<and> s2 \<noteq> s1"
  have d: "distinct (map e_id (escrows (run ops db)))"
    using assms by (simp add: run_ids)
  from a have s1: "escrowStateById i (run ops db) = Some s1" by simp
  have "s1 \<in> {''held'', ''pending'', ''disputed''}
          \<and> s2 \<in> {''released'', ''refunded'', ''disputed''}"
    using apply_operation_state [OF d s1, of op] a by auto
  then show "s1 \<in> {''held'', ''pending'', ''disputed''}"
    and "s2 \<in> {''released'', ''refunded'', ''disputed''}"
    by simp_all
qed

theorem terminal_states_stable_witness:
  "distinct (map e_id (escrows released_store))
   \<and> escrowStateById ''E1'' released_store = Some ''released''
   \<and> escrowStateById ''E1''
       (run [Refund ''B1'' ''A1'' [] ''REF-1-3'' ''T3'' (Some \<lparr>p_success = True, p_reference = []\<rparr>),
             Settle 1000 ''T4'' ''B1'',
             Release ''B1'' ''A1'' [] ''REL-1-9'' ''T5'' None] released_store) = Some ''released''
   \<and> escrowStateById ''E1'' (run [] demo_held) = Some ''held''
   \<and> escrowStateById ''E1''
       (apply_operation
          (Release ''B1'' ''A1'' [] ''REL-1-7'' ''T2'' (Some \<lparr>p_success = True, p_reference = ''REL-PS-1''\<rparr>))
          (run [] demo_held)) = Some ''released''"
proof -
  have d1: "distinct (map e_id (escrows released_store))"
    by (simp add: released_store_def)
  have d2: "distinct (map e_id (escrows demo_held))"
    by (simp add: demo_held_def)
  have s: "escrowStateById ''E1'' released_store = Some ''released''"
    by (simp add: escrowStateById_def released_store_def released_escrow_def demo_defs)
  have m: "''released'' \<in> {''released'', ''refunded'', ''cancelled''}"
    by simp
  have r: "escrowStateById ''E1''
       (run [Refund ''B1'' ''A1'' [] ''REF-1-3'' ''T3'' (Some \<lparr>p_success = True, p_reference = []\<rparr>),
             Settle 1000 ''T4'' ''B1'',
             Release ''B1'' ''A1'' [] ''REL-1-9'' ''T5'' None] released_store) = Some ''released''"
    using terminal_states_stable [OF d1, of "''E1''" "''released''"] s m by blast
  have h: "escrowStateById ''E1'' (run [] demo_held) = Some ''held''"
    by (simp add: escrowStateById_def demo_defs)
  have a: "escrowStateById ''E1''
       (apply_operation
          (Release ''B1'' ''A1'' [] ''REL-1-7'' ''T2'' (Some \<lparr>p_success = True, p_reference = ''REL-PS-1''\<rparr>))
          (run [] demo_held)) = Some ''released''"
    by (simp add: escrowStateById_def model_defs demo_defs)
  show ?thesis using d1 s r h a by simp
qed

text \<open>
  C3 as stated fails on both paths it names. Reconciliation: the escrow of \<open>B1\<close> is
  \<^verbatim>\<open>refunded\<close> and the gateway still reports the original payment as successful;
  \<^verbatim>\<open>reconcileEscrows\<close> writes it back to \<^verbatim>\<open>held\<close>. Webhook ingestion: the escrow of
  \<open>B1\<close> was released by \<^verbatim>\<open>releaseFunds\<close>; the success webhook for \<open>R1\<close> is delivered
  once more and the escrow is \<^verbatim>\<open>held\<close> again; a failure webhook for \<open>R1\<close> would make it
  \<^verbatim>\<open>cancelled\<close>.
\<close>

theorem terminal_state_left_counterexample:
  "map e_state (escrows refunded_store) = [''refunded'']
   \<and> map e_state (escrows (snd (reconcileEscrows gateway_reports_success refunded_store)))
       = [''held'']
   \<and> releaseFunds ''B1'' ''A1'' [] ''REL-1-7'' ''T2''
        (Some \<lparr>p_success = True, p_reference = ''REL-PS-1''\<rparr>) demo_held
       = Inr (\<lparr>r_success = True, r_reference = ''REL-PS-1''\<rparr>, released_store)
   \<and> map e_state (escrows released_store) = [''released'']
   \<and> map e_state (escrows (snd (handleWebhook ''paystack'' True demo_webhook demo_verify
        ''E2'' ''E3'' ''T3'' released_store))) = [''held'']
   \<and> map e_state (escrows (snd (handleWebhook ''paystack'' True
        (demo_webhook\<lparr>w_eventType := ''charge.failed'', w_dataStatus := ''failed''\<rparr>) demo_verify
        ''E2'' ''E3'' ''T3'' released_store))) = [''cancelled'']"
  by code_simp

subsection \<open>Webhook delivery for a reference the ledger does not know yet\<close>

lemma handleWebhook_success_unfold:
  assumes "gateway \<in> {''paystack'', ''flutterwave''}" and "w_reference w \<noteq> []" and "isSuccess w"
      and "resolveTargets w db = (booking, escrow0)"
  shows "handleWebhook gateway True w vr i1 i2 i3 db =
           (case (escrow0, booking) of
              (None, Some b) \<Rightarrow>
                webhookSuccess gateway w vr i2 i3 booking
                  (Some (fst (upsertPendingEscrow b gateway (w_reference w) i1 db)))
                  (snd (upsertPendingEscrow b gateway (w_reference w) i1 db))
            | _ \<Rightarrow> webhookSuccess gateway w vr i2 i3 booking escrow0 db)"
  using assms by (auto simp add: handleWebhook_def split: prod.splits option.splits)

lemma webhookSuccess_already_processed:
  assumes "findTransactionByReference (w_reference w) db = Some t" and "t_status t = ''success''"
  shows "webhookSuccess gateway w vr i2 i3 booking escrow db = (AlreadyProcessed, db)"
  using assms by (simp add: webhookSuccess_def Let_def)

lemma handleWebhook_already_processed:
  assumes "gateway \<in> {''paystack'', ''flutterwave''}" and "w_reference w \<noteq> []" and "isSuccess w"
      and "findTransactionByReference (w_reference w) db = Some t" and "t_status t = ''success''"
      and "fst (resolveTargets w db) = None \<or> snd (resolveTargets w db) \<noteq> None"
  shows "handleWebhook gateway True w vr i1 i2 i3 db = (AlreadyProcessed, db)"
proof -
  obtain booking escrow0 where rt: "resolveTargets w db = (booking, escrow0)"
    by (cases "resolveTargets w db") auto
  have "handleWebhook gateway True w vr i1 i2 i3 db
          = webhookSuccess gateway w vr i2 i3 booking escrow0 db"
    using handleWebhook_success_unfold [OF assms(1-3) rt, of vr i1 i2 i3] assms(6) rt
    by (auto split: option.splits)
  then show ?thesis
    using webhookSuccess_already_processed [OF assms(4,5)] by simp
qed

lemma fresh_webhook_transaction_accepted:
  assumes "findTransactionByReference reference db = None" and "reference \<noteq> []"
      and "bookingId \<noteq> []"
  shows "\<not> rejectsNewTransaction
            \<lparr>t_id = newTxId, t_bookingId = bookingId, t_amount = Some amount,
             t_type = ''escrow'', t_status = ''success'', t_paymentGateway = gateway,
             t_reference = reference, t_note = ''webhook_success''\<rparr> db"
  using assms
  by (simp add: rejectsNewTransaction_def validTransaction_def transactionTypes_def
      transactionStatuses_def)

lemma webhookSuccess_fresh_ledger:
  assumes "findTransactionByReference (w_reference w) db = None" and "w_reference w \<noteq> []"
      and "targetBookingId booking escrow \<noteq> []"
  shows "fst (webhookSuccess gateway w vr i2 i3 booking escrow db) = EscrowHeld
       \<and> (\<exists>tx. transactions (snd (webhookSuccess gateway w vr i2 i3 booking escrow db))
                  = transactions db @ [tx]
              \<and> t_type tx = ''escrow'' \<and> t_status tx = ''success''
              \<and> t_reference tx = w_reference w)"
  using assms fresh_webhook_transaction_accepted [OF assms]
  by (simp add: webhookSuccess_def Let_def recordTransaction_def insertTransaction_def
      saveEscrow_def saveBooking_def insertEscrow_def split: option.splits prod.splits)

lemma webhookSuccess_without_target:
  assumes "findTransactionByReference (w_reference w) db = None"
  shows "webhookSuccess gateway w vr i2 i3 None None db = (WebhookError, db)"
  using assms
  by (simp add: webhookSuccess_def Let_def rejectsNewTransaction_def validTransaction_def
      targetBookingId_def)

lemma webhookSuccess_fresh_stores:
  assumes "findTransactionByReference (w_reference w) db = None" and "w_reference w \<noteq> []"
      and "targetBookingId booking (Some e) \<noteq> []"
  shows "escrows (snd (webhookSuccess gateway w vr i2 i3 booking (Some e) db))
           = map (\<lambda>x. if e_id x = e_id e
                       then e\<lparr>e_state := ''held'', e_gatewayReference := w_reference w,
                              e_amount := orNum (orNum (verify_amount vr) (dataAmount gateway w))
                                            (e_amount e)\<rparr>
                       else x) (escrows db)"
    and "booking = Some b \<Longrightarrow>
         bookings (snd (webhookSuccess gateway w vr i2 i3 booking (Some e) db))
           = map (\<lambda>x. if b_id x = b_id b
                       then b\<lparr>b_paymentStatus := ''escrowed'',
                              b_escrowAmount :=
                                orNum (orNum (orNum (verify_amount vr) (dataAmount gateway w))
                                         (e_amount e))
                                  (orNum (b_escrowAmount b) (b_totalAmount b)),
                              b_paymentGateway := gateway,
                              b_escrowId := orStr (e_id e) (b_escrowId b),
                              b_status := (if b_status b = ''pending'' then ''confirmed''
                                           else b_status b)\<rparr>
                       else x) (bookings db)"
  using assms fresh_webhook_transaction_accepted [OF assms]
  by (simp_all add: webhookSuccess_def Let_def recordTransaction_def insertTransaction_def
      saveEscrow_def saveBooking_def insertEscrow_def split: option.splits prod.splits)

lemma find_after_replace_not_None:
  "find P xs = Some e \<Longrightarrow> P e' \<Longrightarrow>
     find P (map (\<lambda>x. if e_id x = e_id e then e' else x) xs) \<noteq> None"
  by (induction xs) (auto split: if_splits)

lemma find_append_fresh:
  "find P xs = None \<Longrightarrow> P e \<Longrightarrow> find P (xs @ [e]) = Some e"
  by (induction xs) (auto split: if_splits)

lemma resolveTargets_cong:
  "bookings d1 = bookings d2 \<Longrightarrow> escrows d1 = escrows d2
     \<Longrightarrow> resolveTargets w d1 = resolveTargets w d2"
  by (simp add: resolveTargets_def findBookingById_def findEscrowByBooking_def
      findEscrowByGatewayReference_def split: option.splits)

text \<open>
  After the first delivery for a fresh reference the handler finds an escrow whenever it
  finds a booking, so a later delivery does not insert an escrow.
\<close>

lemma first_delivery_resolves:
  assumes "gateway \<in> {''paystack'', ''flutterwave''}" and "w_reference w \<noteq> []" and "isSuccess w"
      and "findTransactionByReference (w_reference w) db = None"
      and "targetBookingId (fst (resolveTargets w db)) (snd (resolveTargets w db)) \<noteq> []"
  shows "fst (resolveTargets w (snd (handleWebhook gateway True w vr i1 i2 i3 db))) = None
       \<or> snd (resolveTargets w (snd (handleWebhook gateway True w vr i1 i2 i3 db))) \<noteq> None"
proof -
  obtain booking escrow0 where rt: "resolveTargets w db = (booking, escrow0)"
    by (cases "resolveTargets w db") auto
  note hw = handleWebhook_success_unfold [OF assms(1-3) rt, of vr i1 i2 i3]
  have tg: "targetBookingId booking escrow0 \<noteq> []"
    using assms(5) rt by simp
  let ?db' = "snd (handleWebhook gateway True w vr i1 i2 i3 db)"
  have after: "fst (resolveTargets w ?db') = None \<or> snd (resolveTargets w ?db') \<noteq> None"
    if h: "?db' = snd (webhookSuccess gateway w vr i2 i3 booking (Some e) dbp)"
      and fr: "findTransactionByReference (w_reference w) dbp = None"
      and tge: "targetBookingId booking (Some e) \<noteq> []"
      and by_ref: "w_bookingId w = [] \<longrightarrow>
             find (\<lambda>x. e_gatewayReference x = w_reference w) (escrows dbp) = Some e"
      and by_id: "w_bookingId w \<noteq> [] \<longrightarrow>
             (\<exists>b. booking = Some b \<and> findBookingById (w_bookingId w) dbp = Some b
                 \<and> findEscrowByBooking (b_id b) dbp = Some e)"
    for e dbp
  proof -
    define e' where "e' = e\<lparr>e_state := ''held'', e_gatewayReference := w_reference w,
                              e_amount := orNum (orNum (verify_amount vr) (dataAmount gateway w))
                                            (e_amount e)\<rparr>"
    have e': "e_id e' = e_id e" "e_bookingId e' = e_bookingId e"
        "e_gatewayReference e' = w_reference w"
        "escrows ?db' = map (\<lambda>x. if e_id x = e_id e' then e' else x) (escrows dbp)"
      using webhookSuccess_fresh_stores(1) [OF fr assms(2) tge, of gateway vr i2 i3] h
      by (simp_all add: e'_def)
    show ?thesis
    proof (cases "w_bookingId w = []")
      case True
      then have fe: "find (\<lambda>x. e_gatewayReference x = w_reference w) (escrows dbp) = Some e"
        using by_ref by simp
      have "find (\<lambda>x. e_gatewayReference x = w_reference w) (escrows ?db') \<noteq> None"
        using find_after_replace_not_None [OF fe, of e'] e' by simp
      then show ?thesis
        using True
        by (auto simp add: resolveTargets_def findEscrowByGatewayReference_def split: option.splits)
    next
      case False
      then obtain b where b: "booking = Some b" "findBookingById (w_bookingId w) dbp = Some b"
          "findEscrowByBooking (b_id b) dbp = Some e"
        using by_id by auto
      have bid: "b_id b = w_bookingId w"
        using b(2) find_Some_pred [of "\<lambda>x. b_id x = w_bookingId w" "bookings dbp" b]
        by (simp add: findBookingById_def)
      have eb: "e_bookingId e = b_id b"
        using b(3) find_Some_pred [of "\<lambda>x. e_bookingId x = b_id b" "escrows dbp" e]
        by (simp add: findEscrowByBooking_def)
      define b' where "b' = b\<lparr>b_paymentStatus := ''escrowed'',
                              b_escrowAmount :=
                                orNum (orNum (orNum (verify_amount vr) (dataAmount gateway w))
                                         (e_amount e))
                                  (orNum (b_escrowAmount b) (b_totalAmount b)),
                              b_paymentGateway := gateway,
                              b_escrowId := orStr (e_id e) (b_escrowId b),
                              b_status := (if b_status b = ''pending'' then ''confirmed''
                                           else b_status b)\<rparr>"
      have b': "b_id b' = b_id b"
          "bookings ?db' = map (\<lambda>x. if b_id x = b_id b' then b' else x) (bookings dbp)"
        using webhookSuccess_fresh_stores(2) [OF fr assms(2) tge b(1), of gateway vr i2 i3] h
        by (simp_all add: b'_def)
      have fb: "findBookingById (w_bookingId w) ?db' = Some b'"
        using find_booking_by_id_after_save [of "w_bookingId w" "bookings dbp" b b'] b(2) b' bid
        by (simp add: findBookingById_def)
      have "find (\<lambda>x. e_bookingId x = b_id b)
              (map (\<lambda>x. if e_id x = e_id e' then e' else x) (escrows dbp)) = Some e'"
        using b(3) e' eb
        by (intro find_escrow_by_booking_after_save [of _ _ e])
           (simp_all add: findEscrowByBooking_def)
      then have "findEscrowByBooking (b_id b') ?db' = Some e'"
        using e'(4) b'(1) by (simp add: findEscrowByBooking_def)
      then show ?thesis
        using False fb by (simp add: resolveTargets_def)
    qed
  qed
  show ?thesis
  proof (cases escrow0)
    case (Some e)
    have h: "?db' = snd (webhookSuccess gateway w vr i2 i3 booking (Some e) db)"
      using hw Some by simp
    have tge: "targetBookingId booking (Some e) \<noteq> []"
      using tg Some by simp
    have r1: "w_bookingId w = [] \<longrightarrow>
             find (\<lambda>x. e_gatewayReference x = w_reference w) (escrows db) = Some e"
      using rt Some
      by (auto simp add: resolveTargets_def findEscrowByGatewayReference_def split: option.splits)
    have r2: "w_bookingId w \<noteq> [] \<longrightarrow>
             (\<exists>b. booking = Some b \<and> findBookingById (w_bookingId w) db = Some b
                 \<and> findEscrowByBooking (b_id b) db = Some e)"
      using rt Some
      by (cases "findBookingById (w_bookingId w) db")
         (auto simp add: resolveTargets_def split: if_splits)
    show ?thesis by (rule after [OF h assms(4) tge r1 r2])
  next
    case None
    then obtain b where Some: "booking = Some b"
      using tg by (cases booking) (simp_all add: targetBookingId_def)
    have nb: "w_bookingId w \<noteq> []"
      using rt Some None by (auto simp add: resolveTargets_def split: option.splits if_splits)
    then have b: "findBookingById (w_bookingId w) db = Some b"
        "findEscrowByBooking (b_id b) db = None"
      using rt Some None
      by (cases "findBookingById (w_bookingId w) db"; auto simp add: resolveTargets_def
          split: if_splits)+
    define e where "e = fst (upsertPendingEscrow b gateway (w_reference w) i1 db)"
    define dbp where "dbp = snd (upsertPendingEscrow b gateway (w_reference w) i1 db)"
    have h: "?db' = snd (webhookSuccess gateway w vr i2 i3 booking (Some e) dbp)"
      using hw None Some by (simp add: e_def dbp_def)
    have up: "e_bookingId e = b_id b" "escrows dbp = escrows db @ [e]"
        "bookings dbp = bookings db" "transactions dbp = transactions db"
      using b(2) by (simp_all add: e_def dbp_def upsertPendingEscrow_def Let_def insertEscrow_def)
    have tge: "targetBookingId booking (Some e) \<noteq> []"
      using tg None Some up(1)
      by (auto simp add: targetBookingId_def orStr_def split: if_splits)
    have fr: "findTransactionByReference (w_reference w) dbp = None"
      using assms(4) up(4) by (simp add: findTransactionByReference_def)
    have fe: "findEscrowByBooking (b_id b) dbp = Some e"
      using b(2) up(1,2) find_append_fresh [of "\<lambda>x. e_bookingId x = b_id b" "escrows db" e]
      by (simp add: findEscrowByBooking_def)
    have fb: "findBookingById (w_bookingId w) dbp = Some b"
      using b(1) up(3) by (simp add: findBookingById_def)
    have r1: "w_bookingId w = [] \<longrightarrow>
           find (\<lambda>x. e_gatewayReference x = w_reference w) (escrows dbp) = Some e"
      using nb by simp
    have r2: "w_bookingId w \<noteq> [] \<longrightarrow>
           (\<exists>b. booking = Some b \<and> findBookingById (w_bookingId w) dbp = Some b
               \<and> findEscrowByBooking (b_id b) dbp = Some e)"
      using Some fb fe by simp
    show ?thesis by (rule after [OF h fr tge r1 r2])
  qed
qed

lemma transactions_handleWebhook_fresh:
  assumes "gateway \<in> {''paystack'', ''flutterwave''}" and "w_reference w \<noteq> []" and "isSuccess w"
      and "findTransactionByReference (w_reference w) db = None"
      and "targetBookingId (fst (resolveTargets w db)) (snd (resolveTargets w db)) \<noteq> []"
  shows "fst (handleWebhook gateway True w vr i1 i2 i3 db) = EscrowHeld
       \<and> (\<exists>tx. transactions (snd (handleWebhook gateway True w vr i1 i2 i3 db))
                  = transactions db @ [tx]
              \<and> t_type tx = ''escrow'' \<and> t_status tx = ''success''
              \<and> t_reference tx = w_reference w)"
proof -
  obtain booking escrow0 where rt: "resolveTargets w db = (booking, escrow0)"
    by (cases "resolveTargets w db") auto
  note hw = handleWebhook_success_unfold [OF assms(1-3) rt, of vr i1 i2 i3]
  have tg: "targetBookingId booking escrow0 \<noteq> []"
    using assms(5) rt by simp
  show ?thesis
  proof (cases "\<exists>b. escrow0 = None \<and> booking = Some b")
    case True
    then obtain b where b: "escrow0 = None" "booking = Some b" by auto
    define e where "e = fst (upsertPendingEscrow b gateway (w_reference w) i1 db)"
    define dbp where "dbp = snd (upsertPendingEscrow b gateway (w_reference w) i1 db)"
    have tp: "transactions dbp = transactions db"
      by (simp add: dbp_def transactions_upsert)
    then have fr: "findTransactionByReference (w_reference w) dbp = None"
      using assms(4) by (simp add: findTransactionByReference_def)
    have tge: "targetBookingId (Some b) (Some e) \<noteq> []"
      using tg b by (auto simp add: targetBookingId_def orStr_def split: if_splits)
    have "handleWebhook gateway True w vr i1 i2 i3 db
            = webhookSuccess gateway w vr i2 i3 (Some b) (Some e) dbp"
      using hw b by (simp add: e_def dbp_def)
    then show ?thesis
      using webhookSuccess_fresh_ledger [OF fr assms(2) tge, of gateway vr i2 i3] tp by simp
  next
    case False
    then have "handleWebhook gateway True w vr i1 i2 i3 db
            = webhookSuccess gateway w vr i2 i3 booking escrow0 db"
      using hw by (auto split: option.splits)
    then show ?thesis
      using webhookSuccess_fresh_ledger [OF assms(4) assms(2) tg, of gateway vr i2 i3] by simp
  qed
qed

text \<open>
  The part of the idempotence law that the code keeps: for a reference with no ledger
  entry, and a delivery for which the handler finds a booking, or the escrow of a booking,
  the first verified delivery of a success webhook appends exactly one Transaction, of
  type \<^verbatim>\<open>escrow\<close> and status \<^verbatim>\<open>success\<close>, and every further delivery takes the
  idempotent exit and leaves the whole store as the first delivery left it.
\<close>

lemma webhook_idempotent_on_fresh_reference:
  assumes "gateway \<in> {''paystack'', ''flutterwave''}" and "w_reference w \<noteq> []" and "isSuccess w"
      and "findTransactionByReference (w_reference w) db = None"
      and "targetBookingId (fst (resolveTargets w db)) (snd (resolveTargets w db)) \<noteq> []"
  shows "\<exists>tx db1. handleWebhook gateway True w vr i1 i2 i3 db = (EscrowHeld, db1)
           \<and> transactions db1 = transactions db @ [tx]
           \<and> t_type tx = ''escrow'' \<and> t_status tx = ''success'' \<and> t_reference tx = w_reference w
           \<and> handleWebhook gateway True w vr' j1 j2 j3 db1 = (AlreadyProcessed, db1)"
proof -
  define db1 where "db1 = snd (handleWebhook gateway True w vr i1 i2 i3 db)"
  obtain tx where tx: "fst (handleWebhook gateway True w vr i1 i2 i3 db) = EscrowHeld"
      "transactions db1 = transactions db @ [tx]" "t_type tx = ''escrow''"
      "t_status tx = ''success''" "t_reference tx = w_reference w"
    using transactions_handleWebhook_fresh [OF assms, of vr i1 i2 i3] by (auto simp add: db1_def)
  have f: "findTransactionByReference (w_reference w) db1 = Some tx"
    using assms(4) tx(2,5) find_append_fresh [of "\<lambda>t. t_reference t = w_reference w" "transactions db" tx]
    by (simp add: findTransactionByReference_def)
  have r: "fst (resolveTargets w db1) = None \<or> snd (resolveTargets w db1) \<noteq> None"
    using first_delivery_resolves [OF assms, of vr i1 i2 i3] by (simp add: db1_def)
  have again: "handleWebhook gateway True w vr' j1 j2 j3 db1 = (AlreadyProcessed, db1)"
    using handleWebhook_already_processed [OF assms(1-3) f tx(4) r] .
  have first: "handleWebhook gateway True w vr i1 i2 i3 db = (EscrowHeld, db1)"
    using tx(1) by (simp add: db1_def prod_eq_iff)
  show ?thesis
    using first tx(2-5) again by blast
qed

text \<open>
  Where the handler finds neither a booking nor an escrow for a new reference, the
  Transaction it builds has no booking: the save is rejected, nothing is written and the
  reply is an error.
\<close>

lemma webhook_without_target_is_rejected:
  assumes "gateway \<in> {''paystack'', ''flutterwave''}" and "w_reference w \<noteq> []" and "isSuccess w"
      and "findTransactionByReference (w_reference w) db = None"
      and "resolveTargets w db = (None, None)"
  shows "handleWebhook gateway True w vr i1 i2 i3 db = (WebhookError, db)"
  using handleWebhook_success_unfold [OF assms(1-3) assms(5), of vr i1 i2 i3]
    webhookSuccess_without_target [OF assms(4), of gateway vr i2 i3]
  by simp

subsection \<open>What the transaction scan reports for a booked Transaction\<close>

lemma checkTransaction_other_type:
  "t_bookingId tx \<noteq> [] \<Longrightarrow> findBookingById (t_bookingId tx) db = Some booking
     \<Longrightarrow> t_type tx \<noteq> ''payment'' \<Longrightarrow> checkTransaction db tx = []"
  by (simp add: checkTransaction_def)

lemma checkTransaction_payment_without_escrow:
  "t_bookingId tx \<noteq> [] \<Longrightarrow> findBookingById (t_bookingId tx) db = Some booking
     \<Longrightarrow> t_type tx = ''payment'' \<Longrightarrow> t_status tx = ''success''
     \<Longrightarrow> findEscrowByBooking (t_bookingId tx) db = None
     \<Longrightarrow> checkTransaction db tx =
           [\<lparr>i_type = ''txn_missing_escrow'', i_severity = ''high'',
             i_transactionId = t_id tx, i_escrowId = [], i_bookingId = t_bookingId tx\<rparr>]"
  by (simp add: checkTransaction_def)

end
